theory Spec2Isabelle
  imports Complex_Main
begin

section \<open>Python values: dictionaries, exceptions, checked division\<close>

text \<open>
  Configurations and weather rows are Python dictionaries from field names to numbers
  (\<^verbatim>\<open>Dict[str, Any]\<close>, or one row of the weather DataFrame). The numeric fields are
  modelled as real numbers: rounding of IEEE doubles is not represented. Where the source
  depends on the special values of floating point, they are written out: the sentinel
  \<open>+inf\<close> of the financial metrics (type \<open>pyfloat\<close>), and NaN and the infinities in the
  energy and water models (type \<open>fl\<close>).
\<close>

type_synonym pydict = "string \<rightharpoonup> real"

definition dget :: "pydict \<Rightarrow> string \<Rightarrow> real \<Rightarrow> real" where
  \<comment> \<open>\<^verbatim>\<open>d.get(key, default)\<close>\<close>
  "dget d key dflt = (case d key of Some v \<Rightarrow> v | None \<Rightarrow> dflt)"

datatype exn =
  ZeroDivisionError | ValueError | TypeError | OverflowError | AttributeError
  | RuntimeError string

fun exn_str :: "exn \<Rightarrow> string" where
  \<comment> \<open>\<^verbatim>\<open>str(e)\<close>\<close>
  "exn_str ZeroDivisionError = ''division by zero''"
| "exn_str ValueError = ''value error''"
| "exn_str TypeError = ''type error''"
| "exn_str OverflowError = ''Numerical result out of range''"
| "exn_str AttributeError = ''Can only use .dt accessor with datetimelike values''"
| "exn_str (RuntimeError msg) = msg"

definition pydiv :: "real \<Rightarrow> real \<Rightarrow> exn + real" where
  \<comment> \<open>\<^verbatim>\<open>a / b\<close> on Python numbers raises when the divisor is zero\<close>
  "pydiv a b = (if b = 0 then Inl ZeroDivisionError else Inr (a / b))"

datatype pyfloat = Fin real | PosInf

section \<open>Floating-point values\<close>

text \<open>
  A double is a real number, an infinity or NaN. NaN propagates through the arithmetic and
  every comparison with NaN is false. Division is numpy's: a zero divisor gives an infinity
  or NaN (with a warning), never an exception; there is no signed zero, the zero divisor
  counts as \<open>+0\<close>.
\<close>

datatype fl = Num real | PInf | NInf | NaN

fun fl_neg :: "fl \<Rightarrow> fl" where
  "fl_neg (Num a) = Num (- a)"
| "fl_neg PInf = NInf"
| "fl_neg NInf = PInf"
| "fl_neg NaN = NaN"

fun fl_add :: "fl \<Rightarrow> fl \<Rightarrow> fl" where
  "fl_add (Num a) (Num b) = Num (a + b)"
| "fl_add (Num a) PInf = PInf"
| "fl_add (Num a) NInf = NInf"
| "fl_add PInf (Num b) = PInf"
| "fl_add PInf PInf = PInf"
| "fl_add NInf (Num b) = NInf"
| "fl_add NInf NInf = NInf"
| "fl_add _ _ = NaN"

definition fl_sub :: "fl \<Rightarrow> fl \<Rightarrow> fl" where
  "fl_sub a b = fl_add a (fl_neg b)"

definition inf_times :: "bool \<Rightarrow> real \<Rightarrow> fl" where
  \<comment> \<open>an infinity (\<open>True\<close> for \<open>+inf\<close>) times a finite number\<close>
  "inf_times positive c =
     (if c = 0 then NaN else if (0 < c) = positive then PInf else NInf)"

fun fl_mul :: "fl \<Rightarrow> fl \<Rightarrow> fl" where
  "fl_mul (Num a) (Num b) = Num (a * b)"
| "fl_mul (Num a) PInf = inf_times True a"
| "fl_mul (Num a) NInf = inf_times False a"
| "fl_mul PInf (Num b) = inf_times True b"
| "fl_mul NInf (Num b) = inf_times False b"
| "fl_mul PInf PInf = PInf"
| "fl_mul NInf NInf = PInf"
| "fl_mul PInf NInf = NInf"
| "fl_mul NInf PInf = NInf"
| "fl_mul _ _ = NaN"

fun fl_div :: "fl \<Rightarrow> fl \<Rightarrow> fl" where
  "fl_div (Num a) (Num b) =
     (if b = 0 then (if 0 < a then PInf else if a < 0 then NInf else NaN) else Num (a / b))"
| "fl_div (Num a) PInf = Num 0"
| "fl_div (Num a) NInf = Num 0"
| "fl_div PInf (Num b) = (if 0 \<le> b then PInf else NInf)"
| "fl_div NInf (Num b) = (if 0 \<le> b then NInf else PInf)"
| "fl_div _ _ = NaN"

fun fl_sqrt :: "fl \<Rightarrow> fl" where
  \<comment> \<open>\<^verbatim>\<open>np.sqrt\<close>\<close>
  "fl_sqrt (Num a) = (if a < 0 then NaN else Num (sqrt a))"
| "fl_sqrt PInf = PInf"
| "fl_sqrt _ = NaN"

fun fl_less :: "fl \<Rightarrow> fl \<Rightarrow> bool" where
  \<comment> \<open>\<^verbatim>\<open>a < b\<close>\<close>
  "fl_less (Num a) (Num b) = (a < b)"
| "fl_less (Num a) PInf = True"
| "fl_less NInf (Num b) = True"
| "fl_less NInf PInf = True"
| "fl_less _ _ = False"

definition fl_sum :: "fl list \<Rightarrow> fl" where
  \<comment> \<open>\<^verbatim>\<open>sum(xs)\<close>: starts at 0 and adds from the left\<close>
  "fl_sum xs = foldl fl_add (Num 0) xs"

fun fl_max_list :: "fl list \<Rightarrow> fl" where
  \<comment> \<open>\<^verbatim>\<open>max(xs) if xs else 0\<close>: a later element replaces the current one only when it
      compares greater\<close>
  "fl_max_list [] = Num 0"
| "fl_max_list (x # xs) = foldl (\<lambda>m y. if fl_less m y then y else m) x xs"

fun fl_min_list :: "fl list \<Rightarrow> fl" where
  \<comment> \<open>\<^verbatim>\<open>min(xs) if xs else 0\<close>\<close>
  "fl_min_list [] = Num 0"
| "fl_min_list (x # xs) = foldl (\<lambda>m y. if fl_less y m then y else m) x xs"

definition fl_pydiv :: "fl \<Rightarrow> real \<Rightarrow> exn + fl" where
  \<comment> \<open>\<^verbatim>\<open>a / b\<close> with a Python number as dividend: raises when the divisor is zero\<close>
  "fl_pydiv a b = (if b = 0 then Inl ZeroDivisionError else Inr (fl_div a (Num b)))"

text \<open>
  A value is a Python number or a numpy number. The two differ in the division by zero:
  Python raises, numpy does not.
\<close>

datatype pyvalue = Py fl | Np fl

fun value_of :: "pyvalue \<Rightarrow> fl" where
  "value_of (Py a) = a"
| "value_of (Np a) = a"

fun py_add :: "pyvalue \<Rightarrow> pyvalue \<Rightarrow> pyvalue" where
  \<comment> \<open>the sum is a numpy number as soon as one operand is\<close>
  "py_add (Py a) (Py b) = Py (fl_add a b)"
| "py_add x y = Np (fl_add (value_of x) (value_of y))"

fun py_times :: "pyvalue \<Rightarrow> real \<Rightarrow> pyvalue" where
  \<comment> \<open>product with a Python number\<close>
  "py_times (Py a) c = Py (fl_mul a (Num c))"
| "py_times (Np a) c = Np (fl_mul a (Num c))"

fun py_over :: "pyvalue \<Rightarrow> real \<Rightarrow> pyvalue" where
  \<comment> \<open>quotient by a Python number that is not zero\<close>
  "py_over (Py a) c = Py (fl_div a (Num c))"
| "py_over (Np a) c = Np (fl_div a (Num c))"

fun py_truediv :: "pyvalue \<Rightarrow> real \<Rightarrow> exn + pyvalue" where
  \<comment> \<open>\<^verbatim>\<open>x / c\<close>: Python raises on a zero divisor, numpy returns an infinity or NaN\<close>
  "py_truediv (Py a) c = (if c = 0 then Inl ZeroDivisionError else Inr (Py (fl_div a (Num c))))"
| "py_truediv (Np a) c = Inr (Np (fl_div a (Num c)))"

definition py_sum :: "pyvalue list \<Rightarrow> pyvalue" where
  \<comment> \<open>\<^verbatim>\<open>sum(xs)\<close> starts at the Python integer 0\<close>
  "py_sum xs = foldl py_add (Py (Num 0)) xs"

definition py_max_zero :: "fl \<Rightarrow> pyvalue" where
  \<comment> \<open>\<^verbatim>\<open>max(0, x)\<close> for a numpy number \<open>x\<close>: the Python integer 0 unless \<^verbatim>\<open>x > 0\<close>\<close>
  "py_max_zero x = (if fl_less (Num 0) x then Np x else Py (Num 0))"

fun is_number :: "pyvalue \<Rightarrow> bool" where
  \<comment> \<open>a finite number: neither NaN nor an infinity\<close>
  "is_number (Py (Num a)) = True"
| "is_number (Np (Num a)) = True"
| "is_number _ = False"

section \<open>Crop parameters and the ML service\<close>

record crop_data =
  growth_period_days :: nat
  optimal_temp_min :: real
  optimal_temp_max :: real
  water_requirement_mm_day :: real
  shade_tolerance :: real
  typical_yield_per_plant :: real

text \<open>
  \<^verbatim>\<open>MLService\<close> holds optional learned models loaded from disk. A loaded model is an
  opaque predictor that may raise; when none is loaded the simplified formulas run.
\<close>

record ml_service =
  energy_model :: "(pydict list \<Rightarrow> pydict \<Rightarrow> exn + real list) option"
  crop_model :: "(pydict list \<Rightarrow> pydict \<Rightarrow> crop_data \<Rightarrow> exn + real list) option"

section \<open>Energy production\<close>

text \<open>
  The energy models iterate over the rows of \<^verbatim>\<open>pd.DataFrame(weather_data)\<close>. The frame
  has a column for every key that occurs in some row, and a row that lacks the key holds
  NaN there. \<^verbatim>\<open>day.get(key, default)\<close> and \<^verbatim>\<open>key in day\<close> on a row look the key up
  among the columns, so the default only applies to a key that no row has.
\<close>

definition has_column :: "pydict list \<Rightarrow> string \<Rightarrow> bool" where
  "has_column weather_data key = list_ex (\<lambda>day. day key \<noteq> None) weather_data"

definition frame_value :: "pydict \<Rightarrow> string \<Rightarrow> fl" where
  \<comment> \<open>\<^verbatim>\<open>day[key]\<close> for a column of the frame\<close>
  "frame_value day key = (case day key of Some v \<Rightarrow> Num v | None \<Rightarrow> NaN)"

definition cell :: "pydict list \<Rightarrow> pydict \<Rightarrow> string \<Rightarrow> real \<Rightarrow> fl" where
  \<comment> \<open>\<^verbatim>\<open>day.get(key, default)\<close> on a row of the frame\<close>
  "cell weather_data day key dflt =
     (if has_column weather_data key then frame_value day key else Num dflt)"

definition simplified_energy_day :: "pydict list \<Rightarrow> pydict \<Rightarrow> pydict \<Rightarrow> fl" where
  \<comment> \<open>loop body of \<^verbatim>\<open>MLService._simplified_energy_model\<close>\<close>
  "simplified_energy_day weather_data config day =
     (let panel_efficiency = dget config ''panel_efficiency'' 0.2;
          panel_area = dget config ''panel_area'' 1.7;
          num_panels = dget config ''num_panels'' 100;
          solar_radiation = cell weather_data day ''solar_radiation'' 5;
          temp_avg = fl_div (fl_add (cell weather_data day ''temperature_high'' 25)
                                    (cell weather_data day ''temperature_low'' 15)) (Num 2);
          temp_coeff = - 0.004;
          temp_factor = fl_add (Num 1) (fl_mul (Num temp_coeff) (fl_sub temp_avg (Num 25)));
          cloud_factor = fl_sub (Num 1) (fl_mul (cell weather_data day ''cloud_cover'' 0) (Num 0.7))
      in fl_mul (fl_mul (fl_mul (fl_mul (fl_mul solar_radiation (Num panel_area))
                  (Num num_panels)) (Num panel_efficiency)) temp_factor) cloud_factor)"

definition simplified_energy_model :: "pydict list \<Rightarrow> pydict \<Rightarrow> fl list" where
  "simplified_energy_model weather_data config =
     map (simplified_energy_day weather_data config) weather_data"

definition predict_energy_production :: "ml_service \<Rightarrow> pydict list \<Rightarrow> pydict \<Rightarrow> exn + fl list" where
  "predict_energy_production ml weather_data config =
     (case energy_model ml of
        Some predict \<Rightarrow>
          (case predict weather_data config of
             Inl e \<Rightarrow> Inl e
           | Inr predictions \<Rightarrow> Inr (map Num predictions))
      | None \<Rightarrow> Inr (simplified_energy_model weather_data config))"

definition fallback_energy_day :: "pydict list \<Rightarrow> pydict \<Rightarrow> pydict \<Rightarrow> fl" where
  \<comment> \<open>loop body of the \<^verbatim>\<open>except\<close> branch of \<^verbatim>\<open>_simulate_energy_production\<close>\<close>
  "fallback_energy_day weather_data config day =
     (let panel_efficiency = dget config ''panel_efficiency'' 0.2;
          panel_area = dget config ''panel_area'' 1.7;
          num_panels = dget config ''num_panels'' 100;
          efficiency_factor = Num panel_efficiency;
          efficiency_factor =
            (if has_column weather_data ''temperature_high''
             then fl_add efficiency_factor
                    (fl_mul (Num (dget config ''temp_coefficient'' (- 0.004)))
                       (fl_sub (frame_value day ''temperature_high'')
                          (Num (dget config ''reference_temp'' 25))))
             else efficiency_factor);
          efficiency_factor =
            (if has_column weather_data ''cloud_cover''
             then fl_mul efficiency_factor
                    (fl_sub (Num 1) (fl_mul (frame_value day ''cloud_cover'') (Num 0.7)))
             else efficiency_factor)
      in if has_column weather_data ''solar_radiation''
         then fl_mul (fl_mul (fl_mul (frame_value day ''solar_radiation'') (Num panel_area))
                (Num num_panels)) efficiency_factor
         else Num 0)"

definition energy_daily_of :: "ml_service \<Rightarrow> pydict \<Rightarrow> pydict list \<Rightarrow> fl list" where
  \<comment> \<open>\<^verbatim>\<open>energy_daily\<close>: the prediction of the ML service, or the inline loop when the service
      raises\<close>
  "energy_daily_of ml config weather_data =
     (case predict_energy_production ml weather_data config of
        Inr predicted \<Rightarrow> predicted
      | Inl _ \<Rightarrow> map (fallback_energy_day weather_data config) weather_data)"

fun list_max :: "real list \<Rightarrow> real" where
  \<comment> \<open>\<^verbatim>\<open>max(xs) if xs else 0\<close>\<close>
  "list_max [] = 0"
| "list_max (x # xs) = fold max xs x"

fun list_min :: "real list \<Rightarrow> real" where
  \<comment> \<open>\<^verbatim>\<open>min(xs) if xs else 0\<close>\<close>
  "list_min [] = 0"
| "list_min (x # xs) = fold min xs x"

record 'm energy_result =
  total_annual_energy_kwh :: fl
  average_daily_energy_kwh :: fl
  peak_daily_production_kwh :: fl
  min_daily_production_kwh :: fl
  monthly_production_kwh :: 'm
  daily_production :: "fl list"
  capacity_factor :: fl

text \<open>
  \<^verbatim>\<open>_simulate_energy_production\<close>. The monthly aggregation \<^verbatim>\<open>_aggregate_monthly\<close> is a
  pandas group-by over calendar dates; it is the argument \<open>aggregate_monthly\<close>, a step that
  may raise, and it runs after the statistics and before the capacity factor, in the order
  of the result dictionary. The two divisions are checked divisions under their guards.
\<close>

definition simulate_energy_production ::
  "ml_service \<Rightarrow> (fl list \<Rightarrow> pydict list \<Rightarrow> exn + 'm) \<Rightarrow> pydict \<Rightarrow> pydict list
   \<Rightarrow> exn + 'm energy_result" where
  "simulate_energy_production ml aggregate_monthly config weather_data =
     (let panel_efficiency = dget config ''panel_efficiency'' 0.2;
          panel_area = dget config ''panel_area'' 1.7;
          num_panels = dget config ''num_panels'' 100;
          energy_daily = energy_daily_of ml config weather_data;
          total_energy = fl_sum energy_daily
      in case (if energy_daily \<noteq> [] then fl_pydiv total_energy (real (length energy_daily))
               else Inr (Num 0)) of
           Inl e \<Rightarrow> Inl e
         | Inr avg_daily_energy \<Rightarrow>
      case aggregate_monthly energy_daily weather_data of
           Inl e \<Rightarrow> Inl e
         | Inr monthly \<Rightarrow>
      case (if panel_efficiency * panel_area * num_panels > 0
            then fl_pydiv avg_daily_energy (24 * panel_efficiency * panel_area * num_panels)
            else Inr (Num 0)) of
           Inl e \<Rightarrow> Inl e
         | Inr cf \<Rightarrow>
             Inr \<lparr> total_annual_energy_kwh = total_energy,
                   average_daily_energy_kwh = avg_daily_energy,
                   peak_daily_production_kwh = fl_max_list energy_daily,
                   min_daily_production_kwh = fl_min_list energy_daily,
                   monthly_production_kwh = monthly,
                   daily_production = energy_daily,
                   capacity_factor = cf \<rparr>)"

text \<open>
  The energy formula in the words of the specification, for comparison with the code:
  \<open>efficiency_factor = panel_efficiency * (1 + temp_coefficient * (temperature - reference_temp))
  * (1 - cloud_cover * 0.7)\<close> and \<open>energy = solar_radiation * panel_area * num_panels *
  efficiency_factor\<close>.
\<close>

definition spec_efficiency_factor :: "real \<Rightarrow> real \<Rightarrow> real \<Rightarrow> real \<Rightarrow> real \<Rightarrow> real" where
  "spec_efficiency_factor panel_efficiency temp_coefficient reference_temp temperature cloud_cover =
     panel_efficiency * (1 + temp_coefficient * (temperature - reference_temp))
       * (1 - cloud_cover * 0.7)"

definition spec_daily_energy :: "real \<Rightarrow> real \<Rightarrow> real \<Rightarrow> real \<Rightarrow> real" where
  "spec_daily_energy solar_radiation panel_area num_panels efficiency_factor =
     solar_radiation * panel_area * num_panels * efficiency_factor"

definition spec_energy_of_day :: "pydict \<Rightarrow> pydict \<Rightarrow> real" where
  \<comment> \<open>the specification's formula read on a configuration and a weather row, with its defaults\<close>
  "spec_energy_of_day config day =
     spec_daily_energy (dget day ''solar_radiation'' 5) (dget config ''panel_area'' 1.7)
       (dget config ''num_panels'' 100)
       (spec_efficiency_factor (dget config ''panel_efficiency'' 0.2)
          (dget config ''temp_coefficient'' (- 0.004)) (dget config ''reference_temp'' 25)
          (dget day ''temperature_high'' 25) (dget day ''cloud_cover'' 0))"

section \<open>Crop growth and yield\<close>

definition ml_temp_stress :: "crop_data \<Rightarrow> pydict \<Rightarrow> real" where
  \<comment> \<open>temperature stress in \<^verbatim>\<open>MLService._simplified_crop_growth_model\<close>\<close>
  "ml_temp_stress crop day =
     (let temp_avg = (dget day ''temperature_high'' 25 + dget day ''temperature_low'' 15) / 2;
          temp_min = optimal_temp_min crop;
          temp_max = optimal_temp_max crop;
          temp_stress =
            (if temp_avg < temp_min then 1 - (temp_min - temp_avg) / 10
             else if temp_avg > temp_max then 1 - (temp_avg - temp_max) / 10
             else 1)
      in max 0.1 (min 1 temp_stress))"

definition ml_water_stress :: "pydict \<Rightarrow> crop_data \<Rightarrow> pydict \<Rightarrow> real" where
  \<comment> \<open>water stress in \<^verbatim>\<open>MLService._simplified_crop_growth_model\<close>\<close>
  "ml_water_stress config crop day =
     (let water_req = water_requirement_mm_day crop;
          precip = dget day ''precipitation'' 0;
          irrigation = dget config ''irrigation_amount'' 5;
          irrigation_eff = dget config ''irrigation_efficiency'' 0.85;
          effective_water = precip + irrigation * irrigation_eff;
          water_stress = min 1 (effective_water / water_req)
      in max 0.1 water_stress)"

definition ml_shade_stress :: "pydict \<Rightarrow> crop_data \<Rightarrow> real" where
  \<comment> \<open>shade stress in \<^verbatim>\<open>MLService._simplified_crop_growth_model\<close>\<close>
  "ml_shade_stress config crop =
     (let shade_coverage = dget config ''shadow_coverage_percent'' 30 / 100
      in 1 - shade_coverage * (1 - shade_tolerance crop))"

definition simplified_crop_growth_day :: "pydict \<Rightarrow> crop_data \<Rightarrow> pydict \<Rightarrow> real" where
  "simplified_crop_growth_day config crop day =
     ml_temp_stress crop day * ml_water_stress config crop day * ml_shade_stress config crop"

definition simplified_crop_growth_model :: "pydict list \<Rightarrow> pydict \<Rightarrow> crop_data \<Rightarrow> real list" where
  "simplified_crop_growth_model weather_data config crop =
     map (simplified_crop_growth_day config crop) weather_data"

definition predict_crop_growth ::
  "ml_service \<Rightarrow> pydict list \<Rightarrow> pydict \<Rightarrow> crop_data \<Rightarrow> exn + real list" where
  "predict_crop_growth ml weather_data config crop =
     (case crop_model ml of
        Some predict \<Rightarrow> predict weather_data config crop
      | None \<Rightarrow> Inr (simplified_crop_growth_model weather_data config crop))"

definition predict_crop_yield :: "real list \<Rightarrow> pydict \<Rightarrow> crop_data \<Rightarrow> exn + real" where
  "predict_crop_yield daily_growth config crop =
     (let planting_density = dget config ''planting_density'' 25;
          field_size = dget config ''field_size'' 10000;
          base_yield = typical_yield_per_plant crop * planting_density * field_size;
          growth_period = min (growth_period_days crop) (length daily_growth)
      in case pydiv (sum_list (take growth_period daily_growth)) (real growth_period) of
           Inl e \<Rightarrow> Inl e
         | Inr avg_growth_factor \<Rightarrow> Inr (base_yield * avg_growth_factor))"

definition default_crop_data :: crop_data where
  \<comment> \<open>the \<^verbatim>\<open>crop_data\<close> dictionary written out in \<^verbatim>\<open>_simulate_crop_yield\<close>\<close>
  "default_crop_data =
     \<lparr> growth_period_days = 60, optimal_temp_min = 15, optimal_temp_max = 25,
       water_requirement_mm_day = 4.5, shade_tolerance = 0.7, typical_yield_per_plant = 0.25 \<rparr>"

definition fallback_temp_stress :: "crop_data \<Rightarrow> pydict \<Rightarrow> real" where
  \<comment> \<open>first loop of the \<^verbatim>\<open>except\<close> branch of \<^verbatim>\<open>_simulate_crop_yield\<close>\<close>
  "fallback_temp_stress crop day =
     (case (day ''temperature_high'', day ''temperature_low'') of
        (Some temperature_high, Some temperature_low) \<Rightarrow>
          (let avg_temp = (temperature_high + temperature_low) / 2;
               stress =
                 (if avg_temp < optimal_temp_min crop then 1 - (optimal_temp_min crop - avg_temp) / 10
                  else if avg_temp > optimal_temp_max crop
                  then 1 - (avg_temp - optimal_temp_max crop) / 10
                  else 1)
           in max 0.1 (min 1 stress))
      | _ \<Rightarrow> 0.8)"

definition fallback_water_stress :: "pydict \<Rightarrow> crop_data \<Rightarrow> pydict \<Rightarrow> real" where
  \<comment> \<open>second loop of the \<^verbatim>\<open>except\<close> branch of \<^verbatim>\<open>_simulate_crop_yield\<close>\<close>
  "fallback_water_stress config crop day =
     (let irrigation_efficiency = dget config ''irrigation_efficiency'' 0.85
      in case day ''precipitation'' of
           Some precipitation \<Rightarrow>
             (let irrigation_amount = dget config ''irrigation_amount'' 0;
                  effective_water = (precipitation + irrigation_amount) * irrigation_efficiency;
                  stress = min 1 (effective_water / water_requirement_mm_day crop)
              in max 0.1 stress)
         | None \<Rightarrow> 0.8)"

definition fallback_shade_stress :: "pydict \<Rightarrow> crop_data \<Rightarrow> real" where
  "fallback_shade_stress config crop =
     (let shade_impact = dget config ''shade_impact'' 0.2
      in 1 - shade_impact * (1 - shade_tolerance crop))"

definition fallback_crop_growth :: "pydict \<Rightarrow> crop_data \<Rightarrow> pydict list \<Rightarrow> real list" where
  \<comment> \<open>the three stress lists are built row by row and multiplied index by index\<close>
  "fallback_crop_growth config crop weather_data =
     map (\<lambda>day. fallback_temp_stress crop day * fallback_water_stress config crop day
                 * fallback_shade_stress config crop) weather_data"

record crop_result =
  total_annual_yield_kg :: real
  yield_per_harvest_kg :: real
  number_of_harvest_cycles :: nat
  harvest_cycle_yields_kg :: "real list"

text \<open>
  \<^verbatim>\<open>_simulate_crop_yield\<close>: the ML service is tried first; any exception, also the one of
  \<^verbatim>\<open>predict_crop_yield\<close>, switches to the inline model, whose own division is outside
  every handler. The draws of \<^verbatim>\<open>np.random.random()\<close> are the argument \<open>rand\<close>. The
  per-area average and the market value of the result are not part of the model.
\<close>

definition simulate_crop_yield ::
  "ml_service \<Rightarrow> (nat \<Rightarrow> real) \<Rightarrow> pydict \<Rightarrow> pydict list \<Rightarrow> exn + crop_result" where
  "simulate_crop_yield ml rand config weather_data =
     (let planting_density = dget config ''planting_density'' 25;
          field_size = dget config ''field_size'' 10000;
          crop = default_crop_data;
          attempt =
            (case predict_crop_growth ml weather_data config crop of
               Inl e \<Rightarrow> Inl e
             | Inr daily_growth \<Rightarrow> predict_crop_yield daily_growth config crop);
          total =
            (case attempt of
               Inr total_yield \<Rightarrow> Inr total_yield
             | Inl _ \<Rightarrow>
                 (let daily_growth = fallback_crop_growth config crop weather_data;
                      harvest_days = min (growth_period_days crop) (length daily_growth)
                  in case pydiv (sum_list (take harvest_days daily_growth)) (real harvest_days) of
                       Inl e \<Rightarrow> Inl e
                     | Inr avg_growth_factor \<Rightarrow>
                         Inr (typical_yield_per_plant crop * planting_density * field_size
                                * avg_growth_factor)))
      in case total of
           Inl e \<Rightarrow> Inl e
         | Inr total_yield \<Rightarrow>
             (let num_cycles = 365 div growth_period_days crop;
                  cycle_yields = map (\<lambda>i. total_yield * (0.9 + 0.2 * rand i)) [0..<num_cycles]
              in Inr \<lparr> total_annual_yield_kg = sum_list cycle_yields,
                       yield_per_harvest_kg = total_yield,
                       number_of_harvest_cycles = num_cycles,
                       harvest_cycle_yields_kg = cycle_yields \<rparr>))"

text \<open>
  The water stress in the words of the specification: \<open>effective_water = precipitation +
  irrigation_amount * irrigation_efficiency\<close>, \<open>stress = min(1, effective_water /
  water_requirement_mm_day)\<close>, floored at 0.1.
\<close>

definition spec_water_stress :: "real \<Rightarrow> real \<Rightarrow> real \<Rightarrow> real \<Rightarrow> real" where
  "spec_water_stress precipitation irrigation_amount irrigation_efficiency water_requirement =
     max 0.1 (min 1 ((precipitation + irrigation_amount * irrigation_efficiency)
                       / water_requirement))"

section \<open>Financial metrics\<close>

definition total_capex_of :: "pydict \<Rightarrow> real" where
  "total_capex_of config =
     (let panel_cost = dget config ''panel_cost'' 250;
          num_panels = dget config ''num_panels'' 100;
          mounting_cost = dget config ''mounting_cost'' 150;
          inverter_cost = dget config ''inverter_cost'' 10000;
          installation_cost = dget config ''installation_cost'' 15000;
          total_panel_cost = panel_cost * num_panels;
          total_mounting_cost = mounting_cost * num_panels;
          total_capex = total_panel_cost + total_mounting_cost + inverter_cost + installation_cost;
          ag_equipment_cost = dget config ''ag_equipment_cost'' 5000
      in total_capex + ag_equipment_cost)"

definition total_opex_annual_of :: "pydict \<Rightarrow> real" where
  "total_opex_annual_of config =
     dget config ''maintenance_cost_annual'' 1000
     + dget config ''insurance_cost_annual'' 500
     + dget config ''labor_cost_annual'' 2000
     + dget config ''seeds_cost_annual'' 1000
     + dget config ''fertilizer_cost_annual'' 500
     + dget config ''pesticide_cost_annual'' 300
     + dget config ''water_cost_annual'' 800
     + dget config ''ag_labor_cost_annual'' 3000"

definition energy_revenue_annual_of :: "pydict \<Rightarrow> real" where
  "energy_revenue_annual_of config =
     dget config ''energy_production_annual'' 40000 * dget config ''energy_price'' 0.12"

definition crop_revenue_annual_of :: "pydict \<Rightarrow> real" where
  "crop_revenue_annual_of config =
     dget config ''crop_yield_annual'' 5000 * dget config ''crop_price'' 2.5"

definition net_profit_annual_of :: "pydict \<Rightarrow> real" where
  "net_profit_annual_of config =
     energy_revenue_annual_of config + crop_revenue_annual_of config - total_opex_annual_of config"

text \<open>
  The project lifetime is the one entry of the configuration whose Python type matters:
  \<^verbatim>\<open>range(1, project_lifetime + 1)\<close> accepts an \<^verbatim>\<open>int\<close> and raises for every
  \<^verbatim>\<open>float\<close>, also a whole one. It is passed with its type, \<open>None\<close> when the key is absent.
\<close>

datatype pynumber = PyInt int | PyFloat real

fun num_of :: "pynumber \<Rightarrow> real" where
  "num_of (PyInt k) = of_int k"
| "num_of (PyFloat x) = x"

definition project_lifetime_of :: "pynumber option \<Rightarrow> pynumber" where
  \<comment> \<open>\<^verbatim>\<open>config.get("project_lifetime", 25)\<close>\<close>
  "project_lifetime_of entry = (case entry of Some v \<Rightarrow> v | None \<Rightarrow> PyInt 25)"

fun range_from_one :: "pynumber \<Rightarrow> exn + nat list" where
  \<comment> \<open>\<^verbatim>\<open>range(1, n + 1)\<close>\<close>
  "range_from_one (PyInt k) = Inr [1..<nat k + 1]"
| "range_from_one (PyFloat x) = Inl TypeError"

definition dbl_max :: real where
  \<comment> \<open>the largest finite double\<close>
  "dbl_max = (2 - 1 / 2 ^ 52) * 2 ^ 1023"

definition py_pow :: "real \<Rightarrow> nat \<Rightarrow> exn + real" where
  \<comment> \<open>\<^verbatim>\<open>base ** year\<close> on floats: a result beyond the range of doubles raises, a result
      below it is 0\<close>
  "py_pow base year =
     (if \<bar>base ^ year\<bar> > dbl_max then Inl OverflowError
      else if \<bar>base ^ year\<bar> \<le> 1 / 2 ^ 1075 then Inr 0
      else Inr (base ^ year))"

fun npv_years :: "real \<Rightarrow> real \<Rightarrow> nat list \<Rightarrow> real \<Rightarrow> exn + real" where
  \<comment> \<open>\<^verbatim>\<open>for year in range(1, project_lifetime + 1): npv += net / ((1 + rate) ** year)\<close>\<close>
  "npv_years net_profit_annual discount_rate [] npv = Inr npv"
| "npv_years net_profit_annual discount_rate (year # years) npv =
     (case py_pow (1 + discount_rate) year of
        Inl e \<Rightarrow> Inl e
      | Inr discount \<Rightarrow>
          (case pydiv net_profit_annual discount of
             Inl e \<Rightarrow> Inl e
           | Inr discounted \<Rightarrow>
               npv_years net_profit_annual discount_rate years (npv + discounted)))"

definition payback_period :: "real \<Rightarrow> real \<Rightarrow> exn + pyfloat" where
  \<comment> \<open>\<^verbatim>\<open>total_capex / net_profit_annual if net_profit_annual > 0 else float('inf')\<close>\<close>
  "payback_period total_capex net_profit_annual =
     (if net_profit_annual > 0
      then (case pydiv total_capex net_profit_annual of Inl e \<Rightarrow> Inl e | Inr v \<Rightarrow> Inr (Fin v))
      else Inr PosInf)"

definition levelized_cost :: "real \<Rightarrow> real \<Rightarrow> exn + pyfloat" where
  \<comment> \<open>\<^verbatim>\<open>total_lifetime_cost / total_lifetime_energy if total_lifetime_energy > 0 else float('inf')\<close>\<close>
  "levelized_cost total_lifetime_cost total_lifetime_energy =
     (if total_lifetime_energy > 0
      then (case pydiv total_lifetime_cost total_lifetime_energy of
              Inl e \<Rightarrow> Inl e | Inr v \<Rightarrow> Inr (Fin v))
      else Inr PosInf)"

record financial_metrics =
  total_capex :: real
  total_opex_annual :: real
  energy_revenue_annual :: real
  crop_revenue_annual :: real
  total_revenue_annual :: real
  net_profit_annual :: real
  payback_period_years :: pyfloat
  roi_percent :: real
  npv :: real
  irr_approx :: real
  lcoe :: pyfloat

text \<open>
  \<^verbatim>\<open>_calculate_financial_metrics\<close>, statement by statement; every division is a checked
  division, so each \<open>Inl\<close> below is the place where the source would raise. The two
  breakdown dictionaries of the result repeat configuration values and are left out.
\<close>

definition calculate_financial_metrics ::
  "pydict \<Rightarrow> pynumber option \<Rightarrow> exn + financial_metrics" where
  "calculate_financial_metrics config lifetime_entry =
     (let capex = total_capex_of config;
          opex = total_opex_annual_of config;
          energy_production_annual = dget config ''energy_production_annual'' 40000;
          net = net_profit_annual_of config
      in case payback_period capex net of
           Inl e \<Rightarrow> Inl e
         | Inr payback \<Rightarrow>
      (let project_lifetime = project_lifetime_of lifetime_entry;
           discount_rate = dget config ''discount_rate'' 0.05;
           lifetime_profit = net * num_of project_lifetime
       in case pydiv (lifetime_profit - capex) capex of
            Inl e \<Rightarrow> Inl e
          | Inr roi_ratio \<Rightarrow>
       case range_from_one project_lifetime of
            Inl e \<Rightarrow> Inl e
          | Inr years \<Rightarrow>
       case npv_years net discount_rate years (- capex) of
            Inl e \<Rightarrow> Inl e
          | Inr npv_value \<Rightarrow>
       case pydiv net capex of
            Inl e \<Rightarrow> Inl e
          | Inr irr \<Rightarrow>
       (let total_lifetime_energy = energy_production_annual * num_of project_lifetime;
            total_lifetime_cost = capex + opex * num_of project_lifetime
        in case levelized_cost total_lifetime_cost total_lifetime_energy of
             Inl e \<Rightarrow> Inl e
           | Inr lcoe_value \<Rightarrow>
               Inr \<lparr> total_capex = capex,
                     total_opex_annual = opex,
                     energy_revenue_annual = energy_revenue_annual_of config,
                     crop_revenue_annual = crop_revenue_annual_of config,
                     total_revenue_annual =
                       energy_revenue_annual_of config + crop_revenue_annual_of config,
                     net_profit_annual = net,
                     payback_period_years = payback,
                     roi_percent = roi_ratio * 100,
                     npv = npv_value,
                     irr_approx = irr,
                     lcoe = lcoe_value \<rparr>)))"

section \<open>Shadow patterns\<close>

definition radians :: "real \<Rightarrow> real" where
  \<comment> \<open>\<^verbatim>\<open>np.radians\<close>\<close>
  "radians deg = deg * pi / 180"

definition shadow_length_day :: "pydict \<Rightarrow> nat \<Rightarrow> real" where
  \<comment> \<open>shadow length at noon of the day with index \<open>i\<close>; the same statements in both paths\<close>
  "shadow_length_day config i =
     (let panel_height = dget config ''panel_height'' 2.5;
          panel_angle = dget config ''panel_angle'' 30;
          latitude = dget config ''latitude'' 40;
          day_of_year = i mod 365;
          declination = 23.45 * sin (radians (360 / 365 * (real day_of_year - 81)));
          elevation_angle = 90 - latitude + declination;
          shadow_length = panel_height * tan (radians (90 - elevation_angle - panel_angle))
      in max 0 shadow_length)"

definition shadow_area_day :: "pydict \<Rightarrow> nat \<Rightarrow> real" where
  "shadow_area_day config i =
     (let panel_width = dget config ''panel_width'' 1;
          panel_angle = dget config ''panel_angle'' 30;
          panel_rows = dget config ''panel_rows'' 10;
          panels_per_row = dget config ''panels_per_row'' 10;
          shadow_width = panel_width + shadow_length_day config i * sin (radians panel_angle)
      in shadow_width * panels_per_row * panel_rows)"

definition shadow_coverage_day :: "pydict \<Rightarrow> nat \<Rightarrow> real" where
  \<comment> \<open>\<^verbatim>\<open>coverage = min(1.0, shadow_area / field_size)\<close> in \<^verbatim>\<open>calculate_shadow_patterns\<close>\<close>
  "shadow_coverage_day config i =
     (let field_size = dget config ''field_size'' 10000
      in min 1 (shadow_area_day config i / field_size))"

definition py_max :: "real list \<Rightarrow> exn + real" where
  \<comment> \<open>\<^verbatim>\<open>max(xs)\<close> raises on the empty list\<close>
  "py_max xs = (case xs of [] \<Rightarrow> Inl ValueError | x # rest \<Rightarrow> Inr (fold max rest x))"

definition py_min :: "real list \<Rightarrow> exn + real" where
  "py_min xs = (case xs of [] \<Rightarrow> Inl ValueError | x # rest \<Rightarrow> Inr (fold min rest x))"

record shadow_result =
  average_shadow_length_m :: real
  maximum_shadow_length_m :: real
  minimum_shadow_length_m :: real
  average_shadow_coverage_percent :: real
  daily_shadow_lengths_m :: "real list"
  daily_shadow_areas_sqm :: "real list"
  daily_shadow_coverage_percent :: "real list option"

text \<open>
  \<^verbatim>\<open>MLService.calculate_shadow_patterns\<close>. Only the number of weather rows is used. The
  statistics divide by the length of the lists without a guard.
\<close>

definition calculate_shadow_patterns :: "pydict list \<Rightarrow> pydict \<Rightarrow> exn + shadow_result" where
  "calculate_shadow_patterns weather_data config =
     (let days = [0..<length weather_data];
          shadow_lengths = map (shadow_length_day config) days;
          shadow_areas = map (shadow_area_day config) days;
          shadow_coverages = map (\<lambda>i. shadow_coverage_day config i * 100) days
      in case pydiv (sum_list shadow_lengths) (real (length shadow_lengths)) of
           Inl e \<Rightarrow> Inl e
         | Inr avg_shadow_length \<Rightarrow>
      case py_max shadow_lengths of
           Inl e \<Rightarrow> Inl e
         | Inr max_shadow_length \<Rightarrow>
      case py_min shadow_lengths of
           Inl e \<Rightarrow> Inl e
         | Inr min_shadow_length \<Rightarrow>
      case pydiv (sum_list shadow_coverages) (real (length shadow_coverages)) of
           Inl e \<Rightarrow> Inl e
         | Inr avg_coverage \<Rightarrow>
             Inr \<lparr> average_shadow_length_m = avg_shadow_length,
                   maximum_shadow_length_m = max_shadow_length,
                   minimum_shadow_length_m = min_shadow_length,
                   average_shadow_coverage_percent = avg_coverage,
                   daily_shadow_lengths_m = shadow_lengths,
                   daily_shadow_areas_sqm = shadow_areas,
                   daily_shadow_coverage_percent = Some shadow_coverages \<rparr>)"

text \<open>
  \<^verbatim>\<open>_simulate_shadow_patterns\<close>: the ML service is tried first; on any exception the
  inline model runs, whose average coverage is the mean shadow area over the field size,
  without the \<open>min\<close>, and whose result has no daily coverage list. The areas are numpy
  numbers there, so the division by the field size does not raise.
\<close>

definition simulate_shadow_patterns :: "pydict \<Rightarrow> pydict list \<Rightarrow> shadow_result" where
  "simulate_shadow_patterns config weather_data =
     (case calculate_shadow_patterns weather_data config of
        Inr shadow_data \<Rightarrow> shadow_data
      | Inl _ \<Rightarrow>
          (let days = [0..<length weather_data];
               shadow_lengths = map (shadow_length_day config) days;
               shadow_areas = map (shadow_area_day config) days;
               avg_shadow_length =
                 (if shadow_lengths \<noteq> []
                  then sum_list shadow_lengths / real (length shadow_lengths) else 0);
               field_size = dget config ''field_size'' 10000;
               avg_shadow_coverage =
                 (if shadow_areas \<noteq> []
                  then sum_list shadow_areas / real (length shadow_areas) / field_size else 0)
           in \<lparr> average_shadow_length_m = avg_shadow_length,
                maximum_shadow_length_m = list_max shadow_lengths,
                minimum_shadow_length_m = list_min shadow_lengths,
                average_shadow_coverage_percent = avg_shadow_coverage * 100,
                daily_shadow_lengths_m = shadow_lengths,
                daily_shadow_areas_sqm = shadow_areas,
                daily_shadow_coverage_percent = None \<rparr>))"

section \<open>Water usage\<close>

text \<open>
  \<^verbatim>\<open>_simulate_water_usage\<close> reads the weather as a list of dictionaries, with the defaults
  of \<^verbatim>\<open>get\<close> row by row. The evapotranspiration is a numpy number: \<^verbatim>\<open>np.sqrt\<close> of a
  negative number is NaN, with a warning and no exception. The irrigation need
  \<^verbatim>\<open>max(0, etc - precip)\<close> is the Python integer 0 unless \<^verbatim>\<open>etc - precip > 0\<close> holds.
\<close>

definition water_need_day :: "pydict \<Rightarrow> pydict \<Rightarrow> fl" where
  \<comment> \<open>\<^verbatim>\<open>etc\<close> of one day\<close>
  "water_need_day config day =
     (let temp_avg = (dget day ''temperature_high'' 25 + dget day ''temperature_low'' 15) / 2;
          et0 = fl_mul (fl_mul (Num (0.0023 * (temp_avg + 17.8)))
                  (fl_sqrt (Num (dget day ''temperature_high'' 25
                                 - dget day ''temperature_low'' 15)))) (Num 6)
      in fl_mul et0 (Num (dget config ''crop_coefficient'' 1)))"

definition irrigation_need_day :: "pydict \<Rightarrow> pydict \<Rightarrow> pyvalue" where
  \<comment> \<open>\<^verbatim>\<open>irrig_need = max(0, etc - precip)\<close>\<close>
  "irrigation_need_day config day =
     py_max_zero (fl_sub (water_need_day config day) (Num (dget day ''precipitation'' 0)))"

definition total_water_need :: "pydict \<Rightarrow> pydict list \<Rightarrow> pyvalue" where
  \<comment> \<open>\<^verbatim>\<open>sum(daily_water_needs) * field_size / 1000\<close>\<close>
  "total_water_need config weather_data =
     py_over (py_times (py_sum (map (\<lambda>day. Np (water_need_day config day)) weather_data))
                (dget config ''field_size'' 10000)) 1000"

definition total_irrigation_need :: "pydict \<Rightarrow> pydict list \<Rightarrow> pyvalue" where
  \<comment> \<open>\<^verbatim>\<open>sum(daily_irrigation_needs) * field_size / 1000\<close>\<close>
  "total_irrigation_need config weather_data =
     py_over (py_times (py_sum (map (irrigation_need_day config) weather_data))
                (dget config ''field_size'' 10000)) 1000"

record water_result =
  total_water_requirement_cubic_m :: pyvalue
  total_irrigation_volume_cubic_m :: pyvalue
  total_precipitation_cubic_m :: real
  water_savings_from_panels_cubic_m :: pyvalue
  water_savings_percent :: real
  daily_irrigation_needs_mm :: "pyvalue list"
  daily_precipitation_mm :: "real list"
  irrigation_efficiency :: real

text \<open>
  The division of the total irrigation need by the irrigation efficiency has no guard: it
  raises when the efficiency is zero and the total is a Python number, which is the case
  when no day has a positive irrigation need.
\<close>

definition simulate_water_usage :: "pydict \<Rightarrow> pydict list \<Rightarrow> exn + water_result" where
  "simulate_water_usage config weather_data =
     (let field_size = dget config ''field_size'' 10000;
          irrigation_eff = dget config ''irrigation_efficiency'' 0.85;
          daily_irrigation_needs = map (irrigation_need_day config) weather_data;
          daily_precipitation = map (\<lambda>day. dget day ''precipitation'' 0) weather_data;
          total_precipitation = sum_list daily_precipitation * field_size / 1000
      in case py_truediv (total_irrigation_need config weather_data) irrigation_eff of
           Inl e \<Rightarrow> Inl e
         | Inr actual_irrigation_volume \<Rightarrow>
             (let shadow_coverage = dget config ''shadow_coverage_percent'' 30 / 100;
                  savings_percent =
                    shadow_coverage * dget config ''evaporation_reduction_factor'' 0.3;
                  water_savings_volume =
                    py_times (total_water_need config weather_data) savings_percent
              in Inr \<lparr> total_water_requirement_cubic_m = total_water_need config weather_data,
                       total_irrigation_volume_cubic_m = actual_irrigation_volume,
                       total_precipitation_cubic_m = total_precipitation,
                       water_savings_from_panels_cubic_m = water_savings_volume,
                       water_savings_percent = savings_percent * 100,
                       daily_irrigation_needs_mm = daily_irrigation_needs,
                       daily_precipitation_mm = daily_precipitation,
                       irrigation_efficiency = irrigation_eff \<rparr>))"

section \<open>Configuration optimizer\<close>

record candidate =
  panel_height :: real
  panel_angle :: real
  panel_spacing :: real
  irrigation_amount :: real
  tracking_type :: string

record constraints =
  bounds :: pydict
  tracking_options :: "string list option"

text \<open>
  The random source: candidate number \<open>i\<close> consumes one \<open>draw\<close>, four numbers of
  \<open>[0, 1)\<close> for the four calls of \<^verbatim>\<open>np.random.uniform\<close> and one natural number for the
  call of \<^verbatim>\<open>np.random.randint\<close>.
\<close>

record draw =
  u_height :: real
  u_angle :: real
  u_spacing :: real
  u_irrigation :: real
  k_tracking :: nat

definition uniform :: "real \<Rightarrow> real \<Rightarrow> real \<Rightarrow> real" where
  \<comment> \<open>\<^verbatim>\<open>np.random.uniform(low, high)\<close> on the draw \<open>u\<close>\<close>
  "uniform low high u = low + (high - low) * u"

definition sample_candidate :: "constraints \<Rightarrow> draw \<Rightarrow> exn + candidate" where
  \<comment> \<open>loop body of \<^verbatim>\<open>_generate_candidate_configurations\<close>; \<^verbatim>\<open>randint(0, 0)\<close> raises\<close>
  "sample_candidate cons d =
     (let height = uniform (dget (bounds cons) ''min_panel_height'' 1.5)
                     (dget (bounds cons) ''max_panel_height'' 4) (u_height d);
          angle = uniform (dget (bounds cons) ''min_panel_angle'' 10)
                    (dget (bounds cons) ''max_panel_angle'' 40) (u_angle d);
          spacing = uniform (dget (bounds cons) ''min_panel_spacing'' 3)
                      (dget (bounds cons) ''max_panel_spacing'' 8) (u_spacing d);
          irrigation = uniform (dget (bounds cons) ''min_irrigation'' 0)
                         (dget (bounds cons) ''max_irrigation'' 10) (u_irrigation d)
      in case tracking_options cons of
           Some options \<Rightarrow>
             (if options = [] then Inl ValueError
              else Inr \<lparr> panel_height = height, panel_angle = angle, panel_spacing = spacing,
                         irrigation_amount = irrigation,
                         tracking_type = options ! (k_tracking d mod length options) \<rparr>)
         | None \<Rightarrow>
             Inr \<lparr> panel_height = height, panel_angle = angle, panel_spacing = spacing,
                   irrigation_amount = irrigation, tracking_type = ''fixed'' \<rparr>)"

fun collect :: "('a \<Rightarrow> exn + 'b) \<Rightarrow> 'a list \<Rightarrow> exn + 'b list" where
  \<comment> \<open>a loop that appends one result per element and stops at the first exception\<close>
  "collect f [] = Inr []"
| "collect f (x # xs) =
     (case f x of
        Inl e \<Rightarrow> Inl e
      | Inr y \<Rightarrow> (case collect f xs of Inl e \<Rightarrow> Inl e | Inr ys \<Rightarrow> Inr (y # ys)))"

definition generate_candidate_configurations ::
  "(nat \<Rightarrow> draw) \<Rightarrow> constraints \<Rightarrow> nat \<Rightarrow> exn + candidate list" where
  "generate_candidate_configurations rand cons num_candidates =
     collect (\<lambda>i. sample_candidate cons (rand i)) [0..<num_candidates]"

definition candidate_score :: "pydict \<Rightarrow> candidate \<Rightarrow> exn + real" where
  \<comment> \<open>loop body of \<^verbatim>\<open>_simplified_optimization\<close>\<close>
  "candidate_score optimization_goals c =
     (let energy_weight = dget optimization_goals ''energy'' 0.5;
          crop_weight = dget optimization_goals ''crop'' 0.5;
          optimal_angle = 30;
          angle_diff = \<bar>panel_angle c - optimal_angle\<bar>;
          energy_score = 1 - angle_diff / 30
      in case pydiv (panel_height c) (panel_spacing c) of
           Inl e \<Rightarrow> Inl e
         | Inr height_ratio \<Rightarrow>
             (let shade_factor = min 1 (height_ratio * 1.5);
                  crop_score = 1 - shade_factor * (1 - 0.7)
              in Inr (energy_weight * energy_score + crop_weight * crop_score)))"

fun argmax_loop :: "real list \<Rightarrow> nat \<Rightarrow> nat \<Rightarrow> real \<Rightarrow> nat" where
  \<comment> \<open>scan from the left; a later element replaces the best one only when strictly greater\<close>
  "argmax_loop [] i best_idx best = best_idx"
| "argmax_loop (x # xs) i best_idx best =
     (if x > best then argmax_loop xs (Suc i) i x else argmax_loop xs (Suc i) best_idx best)"

definition np_argmax :: "real list \<Rightarrow> exn + nat" where
  \<comment> \<open>\<^verbatim>\<open>np.argmax\<close>: the index of the first occurrence of the maximum; raises on an empty
      sequence\<close>
  "np_argmax xs = (case xs of [] \<Rightarrow> Inl ValueError | x # rest \<Rightarrow> Inr (argmax_loop rest 1 0 x))"

definition simplified_optimization_with ::
  "nat \<Rightarrow> (nat \<Rightarrow> draw) \<Rightarrow> constraints \<Rightarrow> pydict \<Rightarrow> exn + candidate" where
  "simplified_optimization_with num_candidates rand cons optimization_goals =
     (case generate_candidate_configurations rand cons num_candidates of
        Inl e \<Rightarrow> Inl e
      | Inr candidates \<Rightarrow>
          (case collect (candidate_score optimization_goals) candidates of
             Inl e \<Rightarrow> Inl e
           | Inr scores \<Rightarrow>
               (case np_argmax scores of
                  Inl e \<Rightarrow> Inl e
                | Inr best_idx \<Rightarrow> Inr (candidates ! best_idx))))"

definition simplified_optimization ::
  "(nat \<Rightarrow> draw) \<Rightarrow> constraints \<Rightarrow> pydict \<Rightarrow> exn + candidate" where
  \<comment> \<open>\<^verbatim>\<open>_simplified_optimization\<close> samples the default number of candidates\<close>
  "simplified_optimization = simplified_optimization_with 1000"

section \<open>Verified properties\<close>

subsection \<open>Energy production\<close>

text \<open>
  Claim C1 at a day with solar radiation 1, a high of 35 and a low of 15 degrees and no
  clouds, for one panel of area 1 and efficiency 0.2: the formula of the claim gives
  \<open>0.2 * (1 - 0.004 * (35 - 25)) = 0.192\<close>. \<^verbatim>\<open>_simplified_energy_model\<close> derates at the
  average of the high and the low temperature and gives 0.2; the inline loop of
  \<^verbatim>\<open>_simulate_energy_production\<close>, which runs when the ML service raises, adds the
  temperature term to the efficiency and gives 0.16.
\<close>

theorem energy_paths_diverge_from_formula:
  "energy_daily_of \<lparr>energy_model = None, crop_model = None\<rparr>
      [''panel_efficiency'' \<mapsto> 0.2, ''panel_area'' \<mapsto> 1, ''num_panels'' \<mapsto> 1]
      [[''solar_radiation'' \<mapsto> 1, ''temperature_high'' \<mapsto> 35, ''temperature_low'' \<mapsto> 15,
        ''cloud_cover'' \<mapsto> 0]] = [Num (1 / 5)]
   \<and> energy_daily_of \<lparr>energy_model = Some (\<lambda>weather config. Inl (RuntimeError ''predict'')),
                       crop_model = None\<rparr>
      [''panel_efficiency'' \<mapsto> 0.2, ''panel_area'' \<mapsto> 1, ''num_panels'' \<mapsto> 1]
      [[''solar_radiation'' \<mapsto> 1, ''temperature_high'' \<mapsto> 35, ''temperature_low'' \<mapsto> 15,
        ''cloud_cover'' \<mapsto> 0]] = [Num (4 / 25)]
   \<and> spec_energy_of_day
      [''panel_efficiency'' \<mapsto> 0.2, ''panel_area'' \<mapsto> 1, ''num_panels'' \<mapsto> 1]
      [''solar_radiation'' \<mapsto> 1, ''temperature_high'' \<mapsto> 35, ''temperature_low'' \<mapsto> 15,
       ''cloud_cover'' \<mapsto> 0] = 24 / 125"
  by (simp add: energy_daily_of_def predict_energy_production_def simplified_energy_model_def
      simplified_energy_day_def fallback_energy_day_def cell_def has_column_def frame_value_def
      fl_sub_def spec_energy_of_day_def spec_daily_energy_def spec_efficiency_factor_def
      dget_def)





subsection \<open>Crop growth\<close>

lemma ml_temp_stress_range: "0.1 \<le> ml_temp_stress crop day \<and> ml_temp_stress crop day \<le> 1"
  by (simp add: ml_temp_stress_def Let_def)

lemma ml_water_stress_range:
  "0.1 \<le> ml_water_stress config crop day \<and> ml_water_stress config crop day \<le> 1"
  by (simp add: ml_water_stress_def Let_def)

lemma one_minus_product_range:
  fixes c u :: real
  assumes "0 \<le> c" "c \<le> 1" "0 \<le> u" "u \<le> 1"
  shows "0 \<le> 1 - c * u \<and> 1 - c * u \<le> 1"
proof -
  have "0 \<le> c * u" using assms(1,3) by (rule mult_nonneg_nonneg)
  moreover have "c * u \<le> 1" using assms by (intro mult_le_one) simp_all
  ultimately show ?thesis by simp
qed

lemma ml_shade_stress_range:
  assumes "0 \<le> dget config ''shadow_coverage_percent'' 30"
    and "dget config ''shadow_coverage_percent'' 30 \<le> 100"
    and "0 \<le> shade_tolerance crop" and "shade_tolerance crop \<le> 1"
  shows "0 \<le> ml_shade_stress config crop \<and> ml_shade_stress config crop \<le> 1"
proof -
  define c where "c = dget config ''shadow_coverage_percent'' 30 / 100"
  define u where "u = 1 - shade_tolerance crop"
  have c: "0 \<le> c" "c \<le> 1" using assms(1,2) by (simp_all add: c_def)
  have u: "0 \<le> u" "u \<le> 1" using assms(3,4) by (simp_all add: u_def)
  have "ml_shade_stress config crop = 1 - c * u"
    by (simp add: ml_shade_stress_def Let_def c_def u_def)
  with one_minus_product_range [OF c u] show ?thesis by simp
qed

lemma product_of_stresses:
  fixes t w s :: real
  assumes "0.1 \<le> t" "t \<le> 1" "0.1 \<le> w" "w \<le> 1" "0 \<le> s"
  shows "s / 100 \<le> t * w * s \<and> t * w * s \<le> s"
proof -
  have "0.1 * 0.1 \<le> t * w" using assms(1,3) by (intro mult_mono) simp_all
  then have lo: "1 / 100 \<le> t * w" by simp
  have hi: "t * w \<le> 1" using assms by (intro mult_le_one) simp_all
  from lo assms(5) have "1 / 100 * s \<le> (t * w) * s" by (rule mult_right_mono)
  moreover from hi assms(5) have "(t * w) * s \<le> 1 * s" by (rule mult_right_mono)
  ultimately show ?thesis by simp
qed

text \<open>
  Claim C2, as the code has it: for every weather day, the temperature and the water stress
  factor of \<^verbatim>\<open>_simplified_crop_growth_model\<close> each lie between 0.1 and 1. The shade
  stress factor \<open>1 - shade_coverage * (1 - shade_tolerance)\<close> has no floor. When the water
  requirement is positive, the shadow coverage lies between 0 and 100 percent and the shade
  tolerance between 0 and 1, the shade stress lies between 0 and 1, and the growth factor of
  the day lies between a hundredth of the shade stress and the shade stress, hence in
  \<open>[0, 1]\<close>.
\<close>

theorem crop_growth_factor_bounds:
  assumes "0 < water_requirement_mm_day crop"
    and "0 \<le> dget config ''shadow_coverage_percent'' 30"
    and "dget config ''shadow_coverage_percent'' 30 \<le> 100"
    and "0 \<le> shade_tolerance crop" and "shade_tolerance crop \<le> 1"
    and "day \<in> set weather_data"
  shows "0.1 \<le> ml_temp_stress crop day \<and> ml_temp_stress crop day \<le> 1
    \<and> 0.1 \<le> ml_water_stress config crop day \<and> ml_water_stress config crop day \<le> 1
    \<and> 0 \<le> ml_shade_stress config crop \<and> ml_shade_stress config crop \<le> 1
    \<and> simplified_crop_growth_day config crop day \<in> set (simplified_crop_growth_model weather_data config crop)
    \<and> ml_shade_stress config crop / 100 \<le> simplified_crop_growth_day config crop day
    \<and> simplified_crop_growth_day config crop day \<le> ml_shade_stress config crop
    \<and> 0 \<le> simplified_crop_growth_day config crop day
    \<and> simplified_crop_growth_day config crop day \<le> 1"
proof -
  note t = ml_temp_stress_range [of crop day]
  note w = ml_water_stress_range [of config crop day]
  note s = ml_shade_stress_range [OF assms(2-5)]
  have p: "ml_shade_stress config crop / 100 \<le> simplified_crop_growth_day config crop day
      \<and> simplified_crop_growth_day config crop day \<le> ml_shade_stress config crop"
    unfolding simplified_crop_growth_day_def
    using product_of_stresses [of "ml_temp_stress crop day" "ml_water_stress config crop day"
        "ml_shade_stress config crop"] t w s by blast
  have m: "simplified_crop_growth_day config crop day
      \<in> set (simplified_crop_growth_model weather_data config crop)"
    using assms(6) by (simp add: simplified_crop_growth_model_def)
  from p have p1: "ml_shade_stress config crop / 100 \<le> simplified_crop_growth_day config crop day"
    and p2: "simplified_crop_growth_day config crop day \<le> ml_shade_stress config crop"
    by blast+
  from s have s1: "0 \<le> ml_shade_stress config crop" and s2: "ml_shade_stress config crop \<le> 1"
    by blast+
  have g0: "0 \<le> simplified_crop_growth_day config crop day" using p1 s1 by linarith
  have g1: "simplified_crop_growth_day config crop day \<le> 1" using p2 s2 by linarith
  from t w s p m g0 g1 show ?thesis by blast
qed

theorem crop_growth_factor_bounds_witness:
  "0 \<le> simplified_crop_growth_day [''shadow_coverage_percent'' \<mapsto> 40] default_crop_data
          [''temperature_high'' \<mapsto> 31, ''temperature_low'' \<mapsto> 12, ''precipitation'' \<mapsto> 1]
   \<and> simplified_crop_growth_day [''shadow_coverage_percent'' \<mapsto> 40] default_crop_data
          [''temperature_high'' \<mapsto> 31, ''temperature_low'' \<mapsto> 12, ''precipitation'' \<mapsto> 1] \<le> 1"
  using crop_growth_factor_bounds [of default_crop_data "[''shadow_coverage_percent'' \<mapsto> 40]"
      "[''temperature_high'' \<mapsto> 31, ''temperature_low'' \<mapsto> 12, ''precipitation'' \<mapsto> 1]"
      "[[''temperature_high'' \<mapsto> 31, ''temperature_low'' \<mapsto> 12, ''precipitation'' \<mapsto> 1]]"]
  by (simp add: default_crop_data_def dget_def)

text \<open>
  Claim C2 as stated fails: with a shadow coverage of 100 percent and a crop of shade
  tolerance 0 the shade stress is 0, below the floor of 0.1, and the growth factor of the
  day is 0, below 0.001.
\<close>

theorem crop_growth_factor_counterexample:
  "ml_shade_stress [''shadow_coverage_percent'' \<mapsto> 100] (default_crop_data\<lparr>shade_tolerance := 0\<rparr>) < 0.1
   \<and> \<not> 0.001 \<le> simplified_crop_growth_day [''shadow_coverage_percent'' \<mapsto> 100]
          (default_crop_data\<lparr>shade_tolerance := 0\<rparr>)
          [''temperature_high'' \<mapsto> 25, ''temperature_low'' \<mapsto> 15, ''precipitation'' \<mapsto> 3]"
  by (simp add: simplified_crop_growth_day_def ml_shade_stress_def default_crop_data_def dget_def)

text \<open>
  The water stress of \<^verbatim>\<open>_simplified_crop_growth_model\<close> is the specification's: the
  irrigation efficiency scales the irrigation only.
\<close>

lemma ml_water_stress_spec:
  "ml_water_stress config crop day =
     spec_water_stress (dget day ''precipitation'' 0) (dget config ''irrigation_amount'' 5)
       (dget config ''irrigation_efficiency'' 0.85) (water_requirement_mm_day crop)"
  by (simp add: ml_water_stress_def spec_water_stress_def Let_def)

text \<open>
  Claim C3 at a day with 2 mm of precipitation, no irrigation and an irrigation efficiency
  of 0.85: the inline model of \<^verbatim>\<open>_simulate_crop_yield\<close> scales the precipitation by the
  irrigation efficiency and gives \<open>1.7 / 4.5\<close>, where the specification and
  \<^verbatim>\<open>_simplified_crop_growth_model\<close> give \<open>2 / 4.5\<close>.
\<close>

theorem fallback_water_stress_scales_precipitation:
  "fallback_water_stress [''irrigation_efficiency'' \<mapsto> 0.85, ''irrigation_amount'' \<mapsto> 0]
      default_crop_data [''precipitation'' \<mapsto> 2] = 17 / 45
   \<and> spec_water_stress 2 0 0.85 (water_requirement_mm_day default_crop_data) = 4 / 9
   \<and> ml_water_stress [''irrigation_efficiency'' \<mapsto> 0.85, ''irrigation_amount'' \<mapsto> 0]
      default_crop_data [''precipitation'' \<mapsto> 2] = 4 / 9"
  by (simp add: fallback_water_stress_def spec_water_stress_def ml_water_stress_def
      default_crop_data_def dget_def)

text \<open>
  Claim C10: on the empty weather series \<^verbatim>\<open>predict_crop_yield\<close> divides by zero, and
  so does \<^verbatim>\<open>_simulate_crop_yield\<close> when no crop model is loaded: the exception of the ML
  service is caught, and the inline model raises it again outside every handler.
\<close>

theorem empty_weather_yield_raises:
  "predict_crop_yield [] config crop = Inl ZeroDivisionError
   \<and> simulate_crop_yield (ml\<lparr>crop_model := None\<rparr>) rand config [] = Inl ZeroDivisionError"
  by (simp add: predict_crop_yield_def simulate_crop_yield_def predict_crop_growth_def
      simplified_crop_growth_model_def fallback_crop_growth_def pydiv_def Let_def)

subsection \<open>Guarded divisions\<close>

text \<open>
  The guard of each of the three metrics excludes the zero divisor, so the checked division
  under it always returns.
\<close>

lemma payback_period_sentinel:
  "payback_period capex net = Inr (if net > 0 then Fin (capex / net) else PosInf)"
  by (simp add: payback_period_def pydiv_def)

lemma levelized_cost_sentinel:
  "levelized_cost cost energy = Inr (if energy > 0 then Fin (cost / energy) else PosInf)"
  by (simp add: levelized_cost_def pydiv_def)

lemma dbl_max_ge_one: "1 \<le> dbl_max"
proof -
  have "(1::real) \<le> 1 * 1" by simp
  also have "\<dots> \<le> (2 - 1 / 2 ^ 52) * 2 ^ 1023"
    by (intro mult_mono) simp_all
  finally show ?thesis by (simp only: dbl_max_def)
qed

lemma py_pow_in_range:
  assumes "0 \<le> rate" and "year \<le> k" and "(1 + rate) ^ k \<le> dbl_max"
  shows "py_pow (1 + rate) year = Inr ((1 + rate) ^ year)" and "1 \<le> (1 + rate) ^ year"
proof -
  have one: "1 \<le> 1 + rate" using assms(1) by simp
  then show ge: "1 \<le> (1 + rate) ^ year" by (rule one_le_power)
  have "(1 + rate) ^ year \<le> (1 + rate) ^ k"
    using assms(2) one by (rule power_increasing)
  then have le: "(1 + rate) ^ year \<le> dbl_max" using assms(3) by simp
  have small: "(1::real) / 2 ^ 1075 < 1" by simp
  have abs: "\<bar>(1 + rate) ^ year\<bar> = (1 + rate) ^ year" using ge by simp
  show "py_pow (1 + rate) year = Inr ((1 + rate) ^ year)"
    unfolding py_pow_def abs using le ge small by simp
qed

lemma npv_years_returns:
  assumes "0 \<le> rate" and "(1 + rate) ^ k \<le> dbl_max"
  shows "\<forall>year \<in> set years. year \<le> k \<Longrightarrow> \<exists>v. npv_years net rate years acc = Inr v"
proof (induction years arbitrary: acc)
  case Nil
  then show ?case by simp
next
  case (Cons year years)
  then have y: "year \<le> k" by simp
  note p = py_pow_in_range [OF assms(1) y assms(2)]
  have nz: "1 + rate \<noteq> 0" using assms(1) by linarith
  from Cons show ?case by (simp add: p(1) pydiv_def nz)
qed

lemma guarded_capacity_division:
  fixes pe pa n :: real
  shows "(if pe * pa * n > 0 then fl_pydiv avg (24 * pe * pa * n) else Inr (Num 0))
         = Inr (if 24 * pe * pa * n > 0 then fl_div avg (Num (24 * pe * pa * n)) else Num 0)"
proof -
  have e: "24 * pe * pa * n = 24 * (pe * pa * n)" by simp
  have "(if d > 0 then fl_pydiv avg (24 * d) else Inr (Num 0))
        = Inr (if 24 * d > 0 then fl_div avg (Num (24 * d)) else Num 0)" for d :: real
    by (simp add: fl_pydiv_def)
  from this [of "pe * pa * n"] show ?thesis unfolding e .
qed

lemma guarded_average_division:
  "(if xs \<noteq> [] then fl_pydiv tot (real (length xs)) else Inr (Num 0))
   = Inr (if xs \<noteq> [] then fl_div tot (Num (real (length xs))) else Num 0)"
  by (simp add: fl_pydiv_def)

lemma simulate_energy_production_outcome:
  "simulate_energy_production ml aggregate_monthly config weather_data =
     (case aggregate_monthly (energy_daily_of ml config weather_data) weather_data of
        Inl e \<Rightarrow> Inl e
      | Inr monthly \<Rightarrow>
          Inr \<lparr> total_annual_energy_kwh = fl_sum (energy_daily_of ml config weather_data),
                average_daily_energy_kwh =
                  (if energy_daily_of ml config weather_data \<noteq> []
                   then fl_div (fl_sum (energy_daily_of ml config weather_data))
                          (Num (real (length (energy_daily_of ml config weather_data))))
                   else Num 0),
                peak_daily_production_kwh = fl_max_list (energy_daily_of ml config weather_data),
                min_daily_production_kwh = fl_min_list (energy_daily_of ml config weather_data),
                monthly_production_kwh = monthly,
                daily_production = energy_daily_of ml config weather_data,
                capacity_factor =
                  (if 24 * dget config ''panel_efficiency'' 0.2 * dget config ''panel_area'' 1.7
                        * dget config ''num_panels'' 100 > 0
                   then fl_div
                          (if energy_daily_of ml config weather_data \<noteq> []
                           then fl_div (fl_sum (energy_daily_of ml config weather_data))
                                  (Num (real (length (energy_daily_of ml config weather_data))))
                           else Num 0)
                          (Num (24 * dget config ''panel_efficiency'' 0.2
                                * dget config ''panel_area'' 1.7
                                * dget config ''num_panels'' 100))
                   else Num 0) \<rparr>)"
  unfolding simulate_energy_production_def Let_def guarded_average_division
    guarded_capacity_division
  by (simp split: sum.splits)

lemma calculate_financial_metrics_returns:
  assumes "total_capex_of config \<noteq> 0"
    and "project_lifetime_of lifetime_entry = PyInt k"
    and "0 \<le> dget config ''discount_rate'' 0.05"
    and "(1 + dget config ''discount_rate'' 0.05) ^ nat k \<le> dbl_max"
  shows "\<exists>m. calculate_financial_metrics config lifetime_entry = Inr m
          \<and> payback_period_years m =
              (if net_profit_annual_of config > 0
               then Fin (total_capex_of config / net_profit_annual_of config)
               else PosInf)
          \<and> lcoe m =
              (if dget config ''energy_production_annual'' 40000 * of_int k > 0
               then Fin ((total_capex_of config + total_opex_annual_of config * of_int k)
                         / (dget config ''energy_production_annual'' 40000 * of_int k))
               else PosInf)"
proof -
  have "\<forall>year \<in> set [1..<nat k + 1]. year \<le> nat k" by auto
  from npv_years_returns [OF assms(3,4) this]
  obtain v where v: "npv_years (net_profit_annual_of config) (dget config ''discount_rate'' 0.05)
      [1..<nat k + 1] (- total_capex_of config) = Inr v"
    by blast
  show ?thesis
    unfolding calculate_financial_metrics_def Let_def payback_period_sentinel
      levelized_cost_sentinel assms(2)
    using assms(1) v
    by (simp add: pydiv_def)
qed

text \<open>
  Claim C6. The payback period is \<open>capex / net_profit_annual\<close> when the net profit is
  positive and \<open>+inf\<close> otherwise; the levelized cost is lifetime cost over lifetime energy
  when the lifetime energy is positive and \<open>+inf\<close> otherwise; neither expression raises.
  \<^verbatim>\<open>_calculate_financial_metrics\<close> returns them, computed from the configuration,
  whenever its other statements do not raise: a nonzero capital expense for the return on
  investment, an \<^verbatim>\<open>int\<close> lifetime for \<^verbatim>\<open>range\<close>, and a discount rate that is not
  negative and whose powers stay in the range of doubles for the loop of the net present
  value. The capacity factor is the average daily energy over
  \<open>24 * panel_efficiency * panel_area * num_panels\<close> when that denominator is positive and
  0 otherwise, the average being the total over the number of days, or 0 for no day:
  \<^verbatim>\<open>_simulate_energy_production\<close> raises exactly when the monthly aggregation raises, and
  returns this capacity factor otherwise.
\<close>

theorem division_guards_give_sentinels:
  assumes "total_capex_of config \<noteq> 0"
    and "project_lifetime_of lifetime_entry = PyInt k"
    and "0 \<le> dget config ''discount_rate'' 0.05"
    and "(1 + dget config ''discount_rate'' 0.05) ^ nat k \<le> dbl_max"
  shows "payback_period capex net = Inr (if net > 0 then Fin (capex / net) else PosInf)
    \<and> levelized_cost cost energy = Inr (if energy > 0 then Fin (cost / energy) else PosInf)
    \<and> (\<exists>m. calculate_financial_metrics config lifetime_entry = Inr m
          \<and> payback_period_years m =
              (if net_profit_annual_of config > 0
               then Fin (total_capex_of config / net_profit_annual_of config)
               else PosInf)
          \<and> lcoe m =
              (if dget config ''energy_production_annual'' 40000 * of_int k > 0
               then Fin ((total_capex_of config + total_opex_annual_of config * of_int k)
                         / (dget config ''energy_production_annual'' 40000 * of_int k))
               else PosInf))
    \<and> (case aggregate_monthly (energy_daily_of ml config weather_data) weather_data of
          Inl e \<Rightarrow> simulate_energy_production ml aggregate_monthly config weather_data = Inl e
        | Inr monthly \<Rightarrow>
            (\<exists>r. simulate_energy_production ml aggregate_monthly config weather_data = Inr r
              \<and> monthly_production_kwh r = monthly
              \<and> capacity_factor r =
              (if 24 * dget config ''panel_efficiency'' 0.2 * dget config ''panel_area'' 1.7
                    * dget config ''num_panels'' 100 > 0
               then fl_div
                      (if energy_daily_of ml config weather_data \<noteq> []
                       then fl_div (fl_sum (energy_daily_of ml config weather_data))
                              (Num (real (length (energy_daily_of ml config weather_data))))
                       else Num 0)
                      (Num (24 * dget config ''panel_efficiency'' 0.2
                            * dget config ''panel_area'' 1.7
                            * dget config ''num_panels'' 100))
               else Num 0)))"
proof -
  have "(case aggregate_monthly (energy_daily_of ml config weather_data) weather_data of
          Inl e \<Rightarrow> simulate_energy_production ml aggregate_monthly config weather_data = Inl e
        | Inr monthly \<Rightarrow>
            (\<exists>r. simulate_energy_production ml aggregate_monthly config weather_data = Inr r
              \<and> monthly_production_kwh r = monthly
              \<and> capacity_factor r =
              (if 24 * dget config ''panel_efficiency'' 0.2 * dget config ''panel_area'' 1.7
                    * dget config ''num_panels'' 100 > 0
               then fl_div
                      (if energy_daily_of ml config weather_data \<noteq> []
                       then fl_div (fl_sum (energy_daily_of ml config weather_data))
                              (Num (real (length (energy_daily_of ml config weather_data))))
                       else Num 0)
                      (Num (24 * dget config ''panel_efficiency'' 0.2
                            * dget config ''panel_area'' 1.7
                            * dget config ''num_panels'' 100))
               else Num 0)))"
    unfolding simulate_energy_production_outcome by (simp split: sum.splits)
  with payback_period_sentinel [of capex net] levelized_cost_sentinel [of cost energy]
    calculate_financial_metrics_returns [OF assms(1-4)]
  show ?thesis by blast
qed

theorem division_guards_give_sentinels_witness:
  "(\<exists>m. calculate_financial_metrics
           [''panel_efficiency'' \<mapsto> 0.2, ''panel_area'' \<mapsto> 1, ''num_panels'' \<mapsto> 1]
           (Some (PyInt 2)) = Inr m
        \<and> payback_period_years m = Fin (152 / 41) \<and> lcoe m = Fin (243 / 400))
   \<and> (\<exists>r. simulate_energy_production \<lparr>energy_model = None, crop_model = None\<rparr>
           (\<lambda>energy weather. Inr [(11 :: nat, fl_sum energy)])
           [''panel_efficiency'' \<mapsto> 0.2, ''panel_area'' \<mapsto> 1, ''num_panels'' \<mapsto> 1]
           [[''solar_radiation'' \<mapsto> 1, ''temperature_high'' \<mapsto> 35,
             ''temperature_low'' \<mapsto> 15, ''cloud_cover'' \<mapsto> 0]] = Inr r
        \<and> capacity_factor r = Num (1 / 24))
   \<and> simulate_energy_production \<lparr>energy_model = None, crop_model = None\<rparr>
           (\<lambda>energy weather. Inl AttributeError :: exn + (nat \<times> fl) list)
           [''panel_efficiency'' \<mapsto> 0.2, ''panel_area'' \<mapsto> 1, ''num_panels'' \<mapsto> 1]
           [] = Inl AttributeError"
  using division_guards_give_sentinels [where
      config = "[''panel_efficiency'' \<mapsto> 0.2, ''panel_area'' \<mapsto> 1, ''num_panels'' \<mapsto> 1]"
      and lifetime_entry = "Some (PyInt 2)" and k = 2
      and ml = "\<lparr>energy_model = None, crop_model = None\<rparr>"
      and aggregate_monthly = "\<lambda>energy weather. Inr [(11 :: nat, fl_sum energy)]"
      and weather_data = "[[''solar_radiation'' \<mapsto> 1, ''temperature_high'' \<mapsto> 35,
             ''temperature_low'' \<mapsto> 15, ''cloud_cover'' \<mapsto> 0]]"]
    division_guards_give_sentinels [where
      config = "[''panel_efficiency'' \<mapsto> 0.2, ''panel_area'' \<mapsto> 1, ''num_panels'' \<mapsto> 1]"
      and lifetime_entry = "Some (PyInt 2)" and k = 2
      and ml = "\<lparr>energy_model = None, crop_model = None\<rparr>"
      and aggregate_monthly = "\<lambda>energy weather. Inl AttributeError :: exn + (nat \<times> fl) list"
      and weather_data = "[]"]
  by (auto simp add: total_capex_of_def net_profit_annual_of_def energy_revenue_annual_of_def
      crop_revenue_annual_of_def total_opex_annual_of_def project_lifetime_of_def dbl_max_def
      energy_daily_of_def predict_energy_production_def simplified_energy_model_def
      simplified_energy_day_def cell_def has_column_def frame_value_def fl_sub_def fl_sum_def
      dget_def Let_def power2_eq_square)

subsection \<open>Shadow coverage\<close>

lemma shadow_length_day_nonneg: "0 \<le> shadow_length_day config i"
  by (simp add: shadow_length_day_def Let_def)

lemma sin_radians_nonneg:
  assumes "0 \<le> a" "a \<le> 90"
  shows "0 \<le> sin (radians a)"
proof -
  have "0 \<le> radians a" using assms(1) by (simp add: radians_def)
  moreover have "radians a \<le> pi"
  proof -
    have "a * pi \<le> 90 * pi" using assms(2) by (intro mult_right_mono) simp_all
    then show ?thesis by (simp add: radians_def)
  qed
  ultimately show ?thesis by (rule sin_ge_zero)
qed

lemma shadow_area_day_nonneg:
  assumes "0 < dget config ''panel_width'' 1"
    and "0 \<le> dget config ''panel_angle'' 30" and "dget config ''panel_angle'' 30 \<le> 90"
    and "0 < dget config ''panel_rows'' 10" and "0 < dget config ''panels_per_row'' 10"
  shows "0 \<le> shadow_area_day config i"
proof -
  have "0 \<le> shadow_length_day config i * sin (radians (dget config ''panel_angle'' 30))"
    using shadow_length_day_nonneg sin_radians_nonneg [OF assms(2,3)]
    by (rule mult_nonneg_nonneg)
  then have "0 \<le> dget config ''panel_width'' 1
      + shadow_length_day config i * sin (radians (dget config ''panel_angle'' 30))"
    using assms(1) by linarith
  then show ?thesis
    using assms(4,5) by (simp add: shadow_area_day_def Let_def)
qed

lemma shadow_coverage_day_range:
  assumes "0 < dget config ''panel_width'' 1"
    and "0 \<le> dget config ''panel_angle'' 30" and "dget config ''panel_angle'' 30 \<le> 90"
    and "0 < dget config ''panel_rows'' 10" and "0 < dget config ''panels_per_row'' 10"
    and "0 < dget config ''field_size'' 10000"
  shows "0 \<le> shadow_coverage_day config i \<and> shadow_coverage_day config i \<le> 1"
  using shadow_area_day_nonneg [OF assms(1-5), of i] assms(6)
  by (simp add: shadow_coverage_day_def Let_def)

lemma sum_list_bounds:
  fixes xs :: "real list"
  assumes "\<forall>x \<in> set xs. 0 \<le> x \<and> x \<le> c"
  shows "0 \<le> sum_list xs \<and> sum_list xs \<le> c * real (length xs)"
  using assms by (induction xs) (auto simp: algebra_simps)

lemma mean_bounds:
  fixes xs :: "real list"
  assumes "\<forall>x \<in> set xs. 0 \<le> x \<and> x \<le> c" and "xs \<noteq> []"
  shows "0 \<le> sum_list xs / real (length xs) \<and> sum_list xs / real (length xs) \<le> c"
proof -
  have n: "0 < real (length xs)" using assms(2) by simp
  from sum_list_bounds [OF assms(1)] have "0 \<le> sum_list xs"
    and "sum_list xs \<le> c * real (length xs)" by simp_all
  with n show ?thesis by (simp add: pos_divide_le_eq)
qed

lemma calculate_shadow_patterns_empty:
  "calculate_shadow_patterns [] config = Inl ZeroDivisionError"
  by (simp add: calculate_shadow_patterns_def pydiv_def)

lemma calculate_shadow_patterns_nonempty:
  assumes "weather_data \<noteq> []"
  shows "\<exists>r. calculate_shadow_patterns weather_data config = Inr r
    \<and> daily_shadow_coverage_percent r
        = Some (map (\<lambda>i. shadow_coverage_day config i * 100) [0..<length weather_data])
    \<and> average_shadow_coverage_percent r
        = sum_list (map (\<lambda>i. shadow_coverage_day config i * 100) [0..<length weather_data])
          / real (length weather_data)"
proof -
  from assms obtain n where n: "length weather_data = Suc n"
    by (cases weather_data) simp_all
  have u: "[0..<Suc n] = 0 # [1..<Suc n]" by (simp add: upt_rec)
  show ?thesis
    by (simp add: calculate_shadow_patterns_def Let_def pydiv_def py_max_def py_min_def n u
        del: upt_Suc)
qed

text \<open>
  Claim C5: for a valid panel geometry (positive height, width, counts and field size, a
  panel angle between 0 and 90 degrees) and every latitude, the shadow coverage fraction of
  every day lies in \<open>[0, 1]\<close> and the average coverage that
  \<^verbatim>\<open>_simulate_shadow_patterns\<close> reports lies between 0 and 100 percent, for every weather
  series. On a series with at least one day the result is the one of
  \<^verbatim>\<open>calculate_shadow_patterns\<close>, with the daily coverages; the inline model, whose
  average has no \<open>min\<close>, only runs on the empty series, where it reports 0.
\<close>

theorem shadow_coverage_in_unit_interval:
  assumes "0 < dget config ''panel_height'' 2.5"
    and "0 < dget config ''panel_width'' 1"
    and "0 \<le> dget config ''panel_angle'' 30" and "dget config ''panel_angle'' 30 \<le> 90"
    and "0 < dget config ''panel_rows'' 10" and "0 < dget config ''panels_per_row'' 10"
    and "0 < dget config ''field_size'' 10000"
  shows "0 \<le> shadow_coverage_day config i \<and> shadow_coverage_day config i \<le> 1
    \<and> 0 \<le> average_shadow_coverage_percent (simulate_shadow_patterns config weather_data)
    \<and> average_shadow_coverage_percent (simulate_shadow_patterns config weather_data) \<le> 100
    \<and> (weather_data \<noteq> [] \<longrightarrow>
          daily_shadow_coverage_percent (simulate_shadow_patterns config weather_data)
            = Some (map (\<lambda>i. shadow_coverage_day config i * 100) [0..<length weather_data]))"
proof -
  note day = shadow_coverage_day_range [OF assms(2-7)]
  have avg: "0 \<le> average_shadow_coverage_percent (simulate_shadow_patterns config weather_data)
    \<and> average_shadow_coverage_percent (simulate_shadow_patterns config weather_data) \<le> 100"
  proof (cases "weather_data = []")
    case True
    then show ?thesis
      by (simp add: simulate_shadow_patterns_def calculate_shadow_patterns_empty)
  next
    case False
    let ?cs = "map (\<lambda>i. shadow_coverage_day config i * 100) [0..<length weather_data]"
    from calculate_shadow_patterns_nonempty [OF False, of config]
    obtain r where r: "calculate_shadow_patterns weather_data config = Inr r"
      and a: "average_shadow_coverage_percent r = sum_list ?cs / real (length weather_data)"
      by blast
    have b: "\<forall>x \<in> set ?cs. 0 \<le> x \<and> x \<le> 100" using day by auto
    have ne: "?cs \<noteq> []" using False by simp
    from mean_bounds [OF b ne] have "0 \<le> sum_list ?cs / real (length weather_data)
        \<and> sum_list ?cs / real (length weather_data) \<le> 100" by simp
    then show ?thesis by (simp add: simulate_shadow_patterns_def r a)
  qed
  have daily: "weather_data \<noteq> [] \<longrightarrow>
          daily_shadow_coverage_percent (simulate_shadow_patterns config weather_data)
            = Some (map (\<lambda>i. shadow_coverage_day config i * 100) [0..<length weather_data])"
  proof
    assume "weather_data \<noteq> []"
    from calculate_shadow_patterns_nonempty [OF this, of config]
    show "daily_shadow_coverage_percent (simulate_shadow_patterns config weather_data)
            = Some (map (\<lambda>i. shadow_coverage_day config i * 100) [0..<length weather_data])"
      by (auto simp: simulate_shadow_patterns_def)
  qed
  from day [of i] avg daily show ?thesis by blast
qed

theorem shadow_coverage_in_unit_interval_witness:
  "0 \<le> shadow_coverage_day [''latitude'' \<mapsto> 52, ''field_size'' \<mapsto> 50] 172
   \<and> shadow_coverage_day [''latitude'' \<mapsto> 52, ''field_size'' \<mapsto> 50] 172 \<le> 1
   \<and> 0 \<le> average_shadow_coverage_percent
        (simulate_shadow_patterns [''latitude'' \<mapsto> 52, ''field_size'' \<mapsto> 50] [Map.empty, Map.empty])
   \<and> average_shadow_coverage_percent
        (simulate_shadow_patterns [''latitude'' \<mapsto> 52, ''field_size'' \<mapsto> 50] [Map.empty, Map.empty])
       \<le> 100"
  using shadow_coverage_in_unit_interval [of "[''latitude'' \<mapsto> 52, ''field_size'' \<mapsto> 50]"
      172 "[Map.empty, Map.empty]"]
  by (simp add: dget_def)

subsection \<open>Water usage\<close>

lemma fl_mul_NaN [simp]: "fl_mul NaN x = NaN" "fl_mul x NaN = NaN"
  by (cases x; simp)+

lemma fl_add_NaN [simp]: "fl_add NaN x = NaN" "fl_add x NaN = NaN"
  by (cases x; simp)+

lemma fl_div_NaN [simp]: "fl_div NaN x = NaN"
  by (cases x) simp_all

lemma value_of_py_add: "value_of (py_add x y) = fl_add (value_of x) (value_of y)"
  by (cases x; cases y) simp_all

lemma value_of_py_times: "value_of (py_times x c) = fl_mul (value_of x) (Num c)"
  by (cases x) simp_all

lemma value_of_py_over: "value_of (py_over x c) = fl_div (value_of x) (Num c)"
  by (cases x) simp_all

lemma foldl_py_add_NaN:
  "value_of acc = NaN \<or> (\<exists>x \<in> set xs. value_of x = NaN)
   \<Longrightarrow> value_of (foldl py_add acc xs) = NaN"
proof (induction xs arbitrary: acc)
  case Nil
  then show ?case by simp
next
  case (Cons x xs)
  have "value_of (py_add acc x) = NaN \<or> (\<exists>y \<in> set xs. value_of y = NaN)"
    using Cons.prems by (auto simp: value_of_py_add)
  then show ?case using Cons.IH by simp
qed

lemma water_need_day_NaN:
  "dget day ''temperature_high'' 25 < dget day ''temperature_low'' 15
   \<Longrightarrow> water_need_day config day = NaN"
  by (simp add: water_need_day_def Let_def)

lemma total_water_need_NaN:
  assumes "day \<in> set weather_data" and "water_need_day config day = NaN"
  shows "value_of (total_water_need config weather_data) = NaN"
proof -
  have "\<exists>x \<in> set (map (\<lambda>day. Np (water_need_day config day)) weather_data). value_of x = NaN"
    using assms by auto
  then have "value_of (py_sum (map (\<lambda>day. Np (water_need_day config day)) weather_data)) = NaN"
    unfolding py_sum_def by (intro foldl_py_add_NaN) blast
  then show ?thesis
    by (simp add: total_water_need_def value_of_py_times value_of_py_over)
qed

lemma is_number_iff: "is_number x = (\<exists>a. value_of x = Num a)"
  by (cases x rule: is_number.cases) simp_all

lemma irrigation_need_day_is_number: "is_number (irrigation_need_day config day)"
proof -
  have "water_need_day config day = NaN \<or> (\<exists>v. water_need_day config day = Num v)"
  proof (cases "dget day ''temperature_high'' 25 < dget day ''temperature_low'' 15")
    case True
    then show ?thesis by (simp add: water_need_day_NaN)
  next
    case False
    then have "water_need_day config day =
        Num (0.0023 * ((dget day ''temperature_high'' 25 + dget day ''temperature_low'' 15) / 2
                        + 17.8)
             * sqrt (dget day ''temperature_high'' 25 - dget day ''temperature_low'' 15) * 6
             * dget config ''crop_coefficient'' 1)"
      by (simp add: water_need_day_def Let_def)
    then show ?thesis by blast
  qed
  then show ?thesis
    by (auto simp: irrigation_need_day_def py_max_zero_def fl_sub_def)
qed

lemma foldl_py_add_is_number:
  "is_number acc \<Longrightarrow> \<forall>x \<in> set xs. is_number x \<Longrightarrow> is_number (foldl py_add acc xs)"
proof (induction xs arbitrary: acc)
  case Nil
  then show ?case by simp
next
  case (Cons x xs)
  have "is_number (py_add acc x)"
    using Cons.prems by (auto simp: is_number_iff value_of_py_add)
  then show ?case using Cons by simp
qed

lemma total_irrigation_need_is_number: "is_number (total_irrigation_need config weather_data)"
proof -
  have "is_number (py_sum (map (irrigation_need_day config) weather_data))"
    unfolding py_sum_def
    by (intro foldl_py_add_is_number) (simp_all add: irrigation_need_day_is_number)
  then obtain a where
    "value_of (py_sum (map (irrigation_need_day config) weather_data)) = Num a"
    by (auto simp: is_number_iff)
  then have "value_of (total_irrigation_need config weather_data)
      = Num (a * dget config ''field_size'' 10000 / 1000)"
    by (simp add: total_irrigation_need_def value_of_py_times value_of_py_over)
  then show ?thesis unfolding is_number_iff by blast
qed

lemma py_truediv_is_number:
  "is_number x \<Longrightarrow> c \<noteq> 0 \<Longrightarrow> \<exists>y. py_truediv x c = Inr y \<and> is_number y"
  by (cases x rule: is_number.cases) simp_all

text \<open>
  Claim C9, as the code has it: for a weather day whose high temperature is below its low
  temperature, the water need of the day is NaN and its irrigation need is the integer 0,
  since \<^verbatim>\<open>max(0, NaN)\<close> is 0 in Python. No guard compares the two temperatures. When
  the irrigation efficiency is not zero the model returns: the total water requirement
  and the water savings of the series are NaN, while every daily irrigation need, the total
  irrigation need and the irrigation volume, which are derived from the daily water need
  too, are numbers.
\<close>

theorem inverted_temperatures_give_nan:
  assumes "day \<in> set weather_data"
    and "dget day ''temperature_high'' 25 < dget day ''temperature_low'' 15"
    and "dget config ''irrigation_efficiency'' 0.85 \<noteq> 0"
  shows "water_need_day config day = NaN
    \<and> irrigation_need_day config day = Py (Num 0)
    \<and> is_number (total_irrigation_need config weather_data)
    \<and> (\<exists>r. simulate_water_usage config weather_data = Inr r
          \<and> value_of (total_water_requirement_cubic_m r) = NaN
          \<and> value_of (water_savings_from_panels_cubic_m r) = NaN
          \<and> (\<forall>x \<in> set (daily_irrigation_needs_mm r). is_number x)
          \<and> is_number (total_irrigation_volume_cubic_m r))"
proof -
  have d: "water_need_day config day = NaN" using assms(2) by (rule water_need_day_NaN)
  have i: "irrigation_need_day config day = Py (Num 0)"
    by (simp add: irrigation_need_day_def d fl_sub_def py_max_zero_def)
  note t = total_water_need_NaN [OF assms(1) d]
  from py_truediv_is_number [OF total_irrigation_need_is_number assms(3)]
  obtain v where v: "py_truediv (total_irrigation_need config weather_data)
      (dget config ''irrigation_efficiency'' 0.85) = Inr v" and vn: "is_number v"
    by blast
  have "\<exists>r. simulate_water_usage config weather_data = Inr r
          \<and> value_of (total_water_requirement_cubic_m r) = NaN
          \<and> value_of (water_savings_from_panels_cubic_m r) = NaN
          \<and> (\<forall>x \<in> set (daily_irrigation_needs_mm r). is_number x)
          \<and> is_number (total_irrigation_volume_cubic_m r)"
    unfolding simulate_water_usage_def Let_def v
    by (simp add: vn t value_of_py_times irrigation_need_day_is_number)
  with d i total_irrigation_need_is_number [of config weather_data] show ?thesis by blast
qed

lemma foldl_py_add_zeros:
  "\<forall>x \<in> set xs. x = Py (Num 0) \<Longrightarrow> foldl py_add (Py (Num 0)) xs = Py (Num 0)"
  by (induction xs) simp_all

lemma zero_efficiency_raises:
  assumes "\<forall>day \<in> set weather_data.
             dget day ''temperature_high'' 25 < dget day ''temperature_low'' 15"
    and "dget config ''irrigation_efficiency'' 0.85 = 0"
  shows "simulate_water_usage config weather_data = Inl ZeroDivisionError"
proof -
  have "\<forall>x \<in> set (map (irrigation_need_day config) weather_data). x = Py (Num 0)"
    using assms(1)
    by (auto simp: irrigation_need_day_def water_need_day_NaN fl_sub_def py_max_zero_def)
  then have s: "py_sum (map (irrigation_need_day config) weather_data) = Py (Num 0)"
    unfolding py_sum_def by (rule foldl_py_add_zeros)
  show ?thesis
    unfolding simulate_water_usage_def total_irrigation_need_def Let_def assms(2) s
    by simp
qed

theorem inverted_temperatures_give_nan_witness:
  "water_need_day Map.empty [''temperature_high'' \<mapsto> 10, ''temperature_low'' \<mapsto> 15] = NaN
   \<and> irrigation_need_day Map.empty [''temperature_high'' \<mapsto> 10, ''temperature_low'' \<mapsto> 15]
       = Py (Num 0)
   \<and> (\<exists>r. simulate_water_usage Map.empty
              [[''temperature_high'' \<mapsto> 20, ''temperature_low'' \<mapsto> 11],
               [''temperature_high'' \<mapsto> 10, ''temperature_low'' \<mapsto> 15]] = Inr r
          \<and> value_of (total_water_requirement_cubic_m r) = NaN
          \<and> is_number (total_irrigation_volume_cubic_m r))"
  using inverted_temperatures_give_nan [of
      "[''temperature_high'' \<mapsto> 10, ''temperature_low'' \<mapsto> 15]"
      "[[''temperature_high'' \<mapsto> 20, ''temperature_low'' \<mapsto> 11],
        [''temperature_high'' \<mapsto> 10, ''temperature_low'' \<mapsto> 15]]" Map.empty]
  by (auto simp add: dget_def)

text \<open>
  Claim C9 as stated fails on a single day with a high of 10 and a low of 15 degrees: the
  total irrigation need and the irrigation volume are the number 0, not NaN, and with an
  irrigation efficiency of 0 the division of that total by the efficiency raises
  \<^verbatim>\<open>ZeroDivisionError\<close>, so the outcome is an error.
\<close>

theorem irrigation_total_not_nan_counterexample:
  "dget [''temperature_high'' \<mapsto> 10, ''temperature_low'' \<mapsto> 15] ''temperature_high'' 25
     < dget [''temperature_high'' \<mapsto> 10, ''temperature_low'' \<mapsto> 15] ''temperature_low'' 15
   \<and> total_irrigation_need Map.empty
        [[''temperature_high'' \<mapsto> 10, ''temperature_low'' \<mapsto> 15]] = Py (Num 0)
   \<and> simulate_water_usage Map.empty [[''temperature_high'' \<mapsto> 10, ''temperature_low'' \<mapsto> 15]]
     = Inr \<lparr> total_water_requirement_cubic_m = Np NaN,
             total_irrigation_volume_cubic_m = Py (Num 0),
             total_precipitation_cubic_m = 0,
             water_savings_from_panels_cubic_m = Np NaN,
             water_savings_percent = 9,
             daily_irrigation_needs_mm = [Py (Num 0)],
             daily_precipitation_mm = [0],
             irrigation_efficiency = 17 / 20 \<rparr>
   \<and> simulate_water_usage [''irrigation_efficiency'' \<mapsto> 0]
        [[''temperature_high'' \<mapsto> 10, ''temperature_low'' \<mapsto> 15]] = Inl ZeroDivisionError"
  by (simp add: simulate_water_usage_def total_irrigation_need_def total_water_need_def
      irrigation_need_day_def water_need_day_def py_sum_def py_max_zero_def fl_sub_def
      dget_def Let_def)

subsection \<open>Configuration optimizer\<close>

lemma argmax_loop_first_max:
  assumes "length pre = i" "bi < i" "pre ! bi = b"
    and "\<forall>j<i. pre ! j \<le> b" and "\<forall>j<bi. pre ! j < b"
  shows "argmax_loop ys i bi b < length (pre @ ys)
    \<and> (\<forall>j<length (pre @ ys). (pre @ ys) ! j \<le> (pre @ ys) ! argmax_loop ys i bi b)
    \<and> (\<forall>j<argmax_loop ys i bi b. (pre @ ys) ! j < (pre @ ys) ! argmax_loop ys i bi b)"
  using assms
proof (induction ys arbitrary: pre i bi b)
  case Nil
  then show ?case by simp
next
  case (Cons y ys)
  show ?case
  proof (cases "y > b")
    case True
    have "argmax_loop ys (Suc i) i y < length ((pre @ [y]) @ ys)
      \<and> (\<forall>j<length ((pre @ [y]) @ ys).
            ((pre @ [y]) @ ys) ! j \<le> ((pre @ [y]) @ ys) ! argmax_loop ys (Suc i) i y)
      \<and> (\<forall>j<argmax_loop ys (Suc i) i y.
            ((pre @ [y]) @ ys) ! j < ((pre @ [y]) @ ys) ! argmax_loop ys (Suc i) i y)"
    proof (rule Cons.IH)
      show "length (pre @ [y]) = Suc i" using Cons.prems(1) by simp
      show "i < Suc i" by simp
      show "(pre @ [y]) ! i = y" using Cons.prems(1) by (auto simp: nth_append)
      have below: "(pre @ [y]) ! j < y" if "j < i" for j
      proof -
        from that Cons.prems(4) have "pre ! j \<le> b" by blast
        with True have "pre ! j < y" by linarith
        moreover have "(pre @ [y]) ! j = pre ! j"
          using that Cons.prems(1) by (simp add: nth_append)
        ultimately show ?thesis by simp
      qed
      show "\<forall>j<Suc i. (pre @ [y]) ! j \<le> y"
      proof (intro allI impI)
        fix j assume "j < Suc i"
        then consider "j < i" | "j = i" by linarith
        then show "(pre @ [y]) ! j \<le> y"
        proof cases
          case 1
          from below [OF 1] show ?thesis by simp
        next
          case 2
          then show ?thesis using Cons.prems(1) by (auto simp: nth_append)
        qed
      qed
      show "\<forall>j<i. (pre @ [y]) ! j < y" using below by blast
    qed
    with True show ?thesis by simp
  next
    case False
    have "argmax_loop ys (Suc i) bi b < length ((pre @ [y]) @ ys)
      \<and> (\<forall>j<length ((pre @ [y]) @ ys).
            ((pre @ [y]) @ ys) ! j \<le> ((pre @ [y]) @ ys) ! argmax_loop ys (Suc i) bi b)
      \<and> (\<forall>j<argmax_loop ys (Suc i) bi b.
            ((pre @ [y]) @ ys) ! j < ((pre @ [y]) @ ys) ! argmax_loop ys (Suc i) bi b)"
    proof (rule Cons.IH)
      show "length (pre @ [y]) = Suc i" using Cons.prems(1) by simp
      show "bi < Suc i" using Cons.prems(2) by simp
      show "(pre @ [y]) ! bi = b" using Cons.prems(1,2,3) by (simp add: nth_append)
      show "\<forall>j<Suc i. (pre @ [y]) ! j \<le> b"
      proof (intro allI impI)
        fix j assume "j < Suc i"
        then consider "j < i" | "j = i" by linarith
        then show "(pre @ [y]) ! j \<le> b"
        proof cases
          case 1
          with Cons.prems(4) have "pre ! j \<le> b" by blast
          moreover have "(pre @ [y]) ! j = pre ! j"
            using 1 Cons.prems(1) by (simp add: nth_append)
          ultimately show ?thesis by simp
        next
          case 2
          then have "(pre @ [y]) ! j = y" using Cons.prems(1) by (auto simp: nth_append)
          with False show ?thesis by simp
        qed
      qed
      show "\<forall>j<bi. (pre @ [y]) ! j < b"
      proof (intro allI impI)
        fix j assume j: "j < bi"
        with Cons.prems(5) have "pre ! j < b" by blast
        moreover have "(pre @ [y]) ! j = pre ! j"
          using j Cons.prems(1,2) by (simp add: nth_append)
        ultimately show "(pre @ [y]) ! j < b" by simp
      qed
    qed
    with False show ?thesis by simp
  qed
qed

lemma np_argmax_first_max:
  assumes "xs \<noteq> []"
  shows "\<exists>i. np_argmax xs = Inr i \<and> i < length xs
    \<and> (\<forall>j<length xs. xs ! j \<le> xs ! i) \<and> (\<forall>j<i. xs ! j < xs ! i)"
proof -
  from assms obtain x rest where xs: "xs = x # rest" by (cases xs) auto
  have "argmax_loop rest 1 0 x < length ([x] @ rest)
    \<and> (\<forall>j<length ([x] @ rest). ([x] @ rest) ! j \<le> ([x] @ rest) ! argmax_loop rest 1 0 x)
    \<and> (\<forall>j<argmax_loop rest 1 0 x. ([x] @ rest) ! j < ([x] @ rest) ! argmax_loop rest 1 0 x)"
    by (rule argmax_loop_first_max) simp_all
  then show ?thesis by (simp add: np_argmax_def xs)
qed

lemma collect_returns:
  assumes "\<forall>x \<in> set xs. \<exists>y. f x = Inr y"
  shows "\<exists>ys. collect f xs = Inr ys \<and> length ys = length xs
    \<and> (\<forall>i<length xs. f (xs ! i) = Inr (ys ! i))"
  using assms
proof (induction xs)
  case Nil
  then show ?case by simp
next
  case (Cons x xs)
  from Cons.prems obtain y where y: "f x = Inr y" by auto
  from Cons.prems have "\<forall>x \<in> set xs. \<exists>y. f x = Inr y" by simp
  from Cons.IH [OF this] obtain ys where ys: "collect f xs = Inr ys" "length ys = length xs"
    "\<forall>i<length xs. f (xs ! i) = Inr (ys ! i)" by blast
  have "f ((x # xs) ! i) = Inr ((y # ys) ! i)" if "i < length (x # xs)" for i
  proof (cases i)
    case 0
    then show ?thesis using y by simp
  next
    case (Suc k)
    with that have "k < length xs" by simp
    with ys(3) have "f (xs ! k) = Inr (ys ! k)" by blast
    with Suc show ?thesis by simp
  qed
  then have "\<forall>i<length (x # xs). f ((x # xs) ! i) = Inr ((y # ys) ! i)" by blast
  moreover have "collect f (x # xs) = Inr (y # ys)" using y ys(1) by simp
  moreover have "length (y # ys) = length (x # xs)" using ys(2) by simp
  ultimately show ?case by blast
qed

lemma sample_candidate_returns:
  assumes "tracking_options cons \<noteq> Some []"
  shows "\<exists>c. sample_candidate cons d = Inr c
    \<and> panel_spacing c = uniform (dget (bounds cons) ''min_panel_spacing'' 3)
                            (dget (bounds cons) ''max_panel_spacing'' 8) (u_spacing d)"
proof (cases "tracking_options cons")
  case None
  then show ?thesis by (simp add: sample_candidate_def Let_def)
next
  case (Some options)
  with assms have "options \<noteq> []" by simp
  with Some show ?thesis by (simp add: sample_candidate_def Let_def)
qed

lemma candidate_score_returns:
  "panel_spacing c \<noteq> 0 \<Longrightarrow> \<exists>s. candidate_score goals c = Inr s"
  by (simp add: candidate_score_def pydiv_def Let_def)

text \<open>
  Claim C7. \<^verbatim>\<open>_simplified_optimization\<close> samples its candidates, scores each of them from
  the goal weights alone (the weather series is not read) and returns the candidate at
  \<^verbatim>\<open>np.argmax(scores)\<close>. Whenever at least one candidate is sampled, the list of tracking
  options is absent or not empty, and no sampled panel spacing is zero, the search returns
  a candidate whose score is at least the score of every sampled candidate and strictly
  greater than the score of every candidate sampled before it: of several candidates with
  the maximum score, the first one is returned. \<^verbatim>\<open>_simplified_optimization\<close> itself
  samples 1000 candidates.
\<close>

theorem optimizer_returns_first_best:
  assumes "0 < n"
    and "tracking_options cons \<noteq> Some []"
    and "\<forall>i<n. uniform (dget (bounds cons) ''min_panel_spacing'' 3)
                  (dget (bounds cons) ''max_panel_spacing'' 8) (u_spacing (rand i)) \<noteq> 0"
  shows "\<exists>candidates scores i.
      generate_candidate_configurations rand cons n = Inr candidates
    \<and> collect (candidate_score goals) candidates = Inr scores
    \<and> length candidates = n \<and> length scores = n \<and> i < n
    \<and> simplified_optimization_with n rand cons goals = Inr (candidates ! i)
    \<and> (\<forall>j<n. candidate_score goals (candidates ! j) = Inr (scores ! j))
    \<and> (\<forall>j<n. scores ! j \<le> scores ! i)
    \<and> (\<forall>j<i. scores ! j < scores ! i)"
proof -
  have "\<forall>x \<in> set [0..<n]. \<exists>y. sample_candidate cons (rand x) = Inr y"
    using sample_candidate_returns [OF assms(2)] by blast
  from collect_returns [OF this] obtain candidates where
    gen: "collect (\<lambda>i. sample_candidate cons (rand i)) [0..<n] = Inr candidates"
    and len0: "length candidates = length [0..<n]"
    and cv0: "\<forall>i<length [0..<n]. sample_candidate cons (rand ([0..<n] ! i)) = Inr (candidates ! i)"
    by blast
  have len: "length candidates = n" using len0 by simp
  have cv: "sample_candidate cons (rand i) = Inr (candidates ! i)" if "i < n" for i
  proof -
    from that have "i < length [0..<n]" by simp
    with cv0 have "sample_candidate cons (rand ([0..<n] ! i)) = Inr (candidates ! i)" by blast
    moreover have "[0..<n] ! i = i" using that by simp
    ultimately show ?thesis by simp
  qed
  have sp: "panel_spacing (candidates ! i) \<noteq> 0" if "i < n" for i
  proof -
    from sample_candidate_returns [OF assms(2), of "rand i"] cv [OF that]
    have "panel_spacing (candidates ! i) = uniform (dget (bounds cons) ''min_panel_spacing'' 3)
            (dget (bounds cons) ''max_panel_spacing'' 8) (u_spacing (rand i))"
      by simp
    with assms(3) that show ?thesis by simp
  qed
  have "\<forall>c \<in> set candidates. \<exists>s. candidate_score goals c = Inr s"
  proof
    fix c assume "c \<in> set candidates"
    then obtain i where "i < length candidates" "candidates ! i = c"
      by (auto simp: in_set_conv_nth)
    with sp len have "panel_spacing c \<noteq> 0" by blast
    then show "\<exists>s. candidate_score goals c = Inr s" by (rule candidate_score_returns)
  qed
  from collect_returns [OF this] obtain scores where
    sc: "collect (candidate_score goals) candidates = Inr scores"
    and sl: "length scores = length candidates"
    and sv: "\<forall>j<length candidates. candidate_score goals (candidates ! j) = Inr (scores ! j)"
    by blast
  have "scores \<noteq> []" using sl len assms(1) by auto
  from np_argmax_first_max [OF this] obtain i where
    am: "np_argmax scores = Inr i" and il: "i < length scores"
    and ge: "\<forall>j<length scores. scores ! j \<le> scores ! i"
    and first: "\<forall>j<i. scores ! j < scores ! i" by blast
  have g: "generate_candidate_configurations rand cons n = Inr candidates"
    using gen by (simp add: generate_candidate_configurations_def)
  have r: "simplified_optimization_with n rand cons goals = Inr (candidates ! i)"
    by (simp add: simplified_optimization_with_def g sc am)
  have a: "length scores = n" using sl len by simp
  have b: "i < n" using il a by simp
  have c: "\<forall>j<n. candidate_score goals (candidates ! j) = Inr (scores ! j)"
    using sv len by simp
  have d: "\<forall>j<n. scores ! j \<le> scores ! i" using ge a by simp
  from g sc len a b r c d first show ?thesis by blast
qed

theorem optimizer_returns_first_best_witness:
  "simplified_optimization_with 3
     (\<lambda>i. \<lparr> u_height = 0, u_angle = (if i = 0 then 0 else 2 / 3), u_spacing = 0,
             u_irrigation = real i / 10, k_tracking = 0 \<rparr>)
     \<lparr> bounds = Map.empty, tracking_options = None \<rparr> Map.empty
   = Inr \<lparr> panel_height = 3 / 2, panel_angle = 30, panel_spacing = 3, irrigation_amount = 1,
           tracking_type = ''fixed'' \<rparr>
   \<and> collect (candidate_score Map.empty)
       [\<lparr> panel_height = 3 / 2, panel_angle = 10, panel_spacing = 3, irrigation_amount = 0,
          tracking_type = ''fixed'' \<rparr>,
        \<lparr> panel_height = 3 / 2, panel_angle = 30, panel_spacing = 3, irrigation_amount = 1,
          tracking_type = ''fixed'' \<rparr>,
        \<lparr> panel_height = 3 / 2, panel_angle = 30, panel_spacing = 3, irrigation_amount = 2,
          tracking_type = ''fixed'' \<rparr>]
     = Inr [133 / 240, 71 / 80, 71 / 80]"
proof -
  have "\<exists>candidates scores i.
      generate_candidate_configurations
        (\<lambda>i. \<lparr> u_height = 0, u_angle = (if i = 0 then 0 else 2 / 3), u_spacing = 0,
             u_irrigation = real i / 10, k_tracking = 0 \<rparr>)
        \<lparr> bounds = Map.empty, tracking_options = None \<rparr> 3 = Inr candidates
    \<and> collect (candidate_score Map.empty) candidates = Inr scores
    \<and> length candidates = 3 \<and> length scores = 3 \<and> i < 3
    \<and> simplified_optimization_with 3
        (\<lambda>i. \<lparr> u_height = 0, u_angle = (if i = 0 then 0 else 2 / 3), u_spacing = 0,
             u_irrigation = real i / 10, k_tracking = 0 \<rparr>)
        \<lparr> bounds = Map.empty, tracking_options = None \<rparr> Map.empty = Inr (candidates ! i)
    \<and> (\<forall>j<3. candidate_score Map.empty (candidates ! j) = Inr (scores ! j))
    \<and> (\<forall>j<3. scores ! j \<le> scores ! i)
    \<and> (\<forall>j<i. scores ! j < scores ! i)"
    by (rule optimizer_returns_first_best) (simp_all add: uniform_def dget_def)
  then show ?thesis
    by (simp add: simplified_optimization_with_def generate_candidate_configurations_def
        sample_candidate_def candidate_score_def np_argmax_def uniform_def pydiv_def dget_def
        Let_def upt_rec)
qed

end
